theory Spec2Isabelle
  imports Main "HOL-Library.Word"
begin

unbundle bit_operations_syntax

section \<open>Strings, bytes and runes\<close>

text \<open>
  A Go \<^verbatim>\<open>string\<close> and a Go \<^verbatim>\<open>[]byte\<close> are sequences of bytes; both are modelled as a HOL
  \<^typ>\<open>string\<close>, whose characters are 8-bit, so that the conversions \<^verbatim>\<open>string(b)\<close> and
  \<^verbatim>\<open>[]byte(s)\<close> are the identity. \<^verbatim>\<open>len(s)\<close> is \<^term>\<open>length s\<close>. A \<^verbatim>\<open>rune\<close> is an \<^verbatim>\<open>int32\<close>;
  every rune value that occurs is below \<open>2^21\<close>, so runes are integers.
\<close>

type_synonym rune = int

definition byte :: "char \<Rightarrow> int" where
  "byte c = of_char c"

definition runeError :: rune where
  "runeError = 0xFFFD"

definition is_cont :: "char \<Rightarrow> bool" where
  "is_cont c = (0x80 \<le> byte c \<and> byte c \<le> 0xBF)"

text \<open>
  \<^verbatim>\<open>for _, r := range s\<close> decodes one UTF-8 encoded code point per iteration. A byte below
  \<open>0x80\<close> is its own rune. Otherwise the Go runtime decodes a two, three or four byte
  sequence; a sequence that is incomplete, overlong, a surrogate or beyond \<open>U+10FFFF\<close>
  yields \<open>U+FFFD\<close> and the loop advances by a single byte. \<open>decoderune s\<close> is applied
  to the non-empty rest of the string and returns the rune and the number of bytes used.
\<close>

definition decoderune :: "string \<Rightarrow> rune \<times> nat" where
  "decoderune s =
     (let s0 = byte (s ! 0) in
      if 0xC0 \<le> s0 \<and> s0 < 0xE0 then
        (if 1 < length s \<and> is_cont (s ! 1) then
           (let r = push_bit 6 (s0 AND 0x1F) OR (byte (s ! 1) AND 0x3F)
            in if 0x7F < r then (r, 2) else (runeError, 1))
         else (runeError, 1))
      else if 0xE0 \<le> s0 \<and> s0 < 0xF0 then
        (if 2 < length s \<and> is_cont (s ! 1) \<and> is_cont (s ! 2) then
           (let r = push_bit 12 (s0 AND 0x0F) OR push_bit 6 (byte (s ! 1) AND 0x3F)
                      OR (byte (s ! 2) AND 0x3F)
            in if 0x7FF < r \<and> \<not> (0xD800 \<le> r \<and> r \<le> 0xDFFF) then (r, 3)
               else (runeError, 1))
         else (runeError, 1))
      else if 0xF0 \<le> s0 \<and> s0 < 0xF8 then
        (if 3 < length s \<and> is_cont (s ! 1) \<and> is_cont (s ! 2) \<and> is_cont (s ! 3) then
           (let r = push_bit 18 (s0 AND 0x07) OR push_bit 12 (byte (s ! 1) AND 0x3F)
                      OR push_bit 6 (byte (s ! 2) AND 0x3F) OR (byte (s ! 3) AND 0x3F)
            in if 0xFFFF < r \<and> r \<le> 0x10FFFF then (r, 4) else (runeError, 1))
         else (runeError, 1))
      else (runeError, 1))"

definition next_rune :: "string \<Rightarrow> rune \<times> nat" where
  "next_rune s = (if byte (s ! 0) < 0x80 then (byte (s ! 0), 1) else decoderune s)"

section \<open>IsValidSHA256\<close>

definition hex_rune :: "rune \<Rightarrow> bool" where
  "hex_rune r = ((r \<ge> 0x30 \<and> r \<le> 0x39) \<or> (r \<ge> 0x61 \<and> r \<le> 0x66))"

text \<open>
  The loop of \<^verbatim>\<open>IsValidSHA256\<close> (lines 159 to 164). The argument is the part of the string
  that the \<^verbatim>\<open>range\<close> clause has not yet iterated over.
\<close>

function IsValidSHA256_loop :: "string \<Rightarrow> bool" where
  "IsValidSHA256_loop s =
     (if s = [] then True
      else if \<not> hex_rune (fst (next_rune s)) then False
      else IsValidSHA256_loop (drop (snd (next_rune s)) s))"
  by pat_completeness auto
termination
proof (relation "measure length")
  show "wf (measure length)" by simp
next
  fix s :: string
  assume "s \<noteq> []"
  moreover have "1 \<le> snd (decoderune s)"
    by (simp add: decoderune_def Let_def)
  then have "1 \<le> snd (next_rune s)"
    by (simp add: next_rune_def)
  ultimately show "(drop (snd (next_rune s)) s, s) \<in> measure length"
    by (cases s) auto
qed

declare IsValidSHA256_loop.simps [simp del]

definition IsValidSHA256 :: "string \<Rightarrow> bool" where
  "IsValidSHA256 s = (if length s \<noteq> 64 then False else IsValidSHA256_loop s)"

text \<open>
  The shape the specification asks of a device identifier, in its own words: length 64 and
  every character in \<open>[0-9a-f]\<close>.
\<close>

definition hex_char :: "char \<Rightarrow> bool" where
  "hex_char c = (c \<in> set ''0123456789abcdef'')"

definition fingerprint_shape :: "string \<Rightarrow> bool" where
  "fingerprint_shape s = (length s = 64 \<and> list_all hex_char s)"

section \<open>SHA-256 and hexadecimal encoding\<close>

text \<open>
  \<^verbatim>\<open>sha256.Sum256\<close> of the Go standard library, following its generic block function
  (FIPS 180-4): the message is padded with \<open>0x80\<close>, zero bytes and the 64-bit big-endian bit
  length, and processed in chunks of 64 bytes.
\<close>

type_synonym u32 = "32 word"

definition K256 :: "u32 list" where
  "K256 = [
    0x428A2F98, 0x71374491, 0xB5C0FBCF, 0xE9B5DBA5, 0x3956C25B, 0x59F111F1, 0x923F82A4, 0xAB1C5ED5,
    0xD807AA98, 0x12835B01, 0x243185BE, 0x550C7DC3, 0x72BE5D74, 0x80DEB1FE, 0x9BDC06A7, 0xC19BF174,
    0xE49B69C1, 0xEFBE4786, 0x0FC19DC6, 0x240CA1CC, 0x2DE92C6F, 0x4A7484AA, 0x5CB0A9DC, 0x76F988DA,
    0x983E5152, 0xA831C66D, 0xB00327C8, 0xBF597FC7, 0xC6E00BF3, 0xD5A79147, 0x06CA6351, 0x14292967,
    0x27B70A85, 0x2E1B2138, 0x4D2C6DFC, 0x53380D13, 0x650A7354, 0x766A0ABB, 0x81C2C92E, 0x92722C85,
    0xA2BFE8A1, 0xA81A664B, 0xC24B8B70, 0xC76C51A3, 0xD192E819, 0xD6990624, 0xF40E3585, 0x106AA070,
    0x19A4C116, 0x1E376C08, 0x2748774C, 0x34B0BCB5, 0x391C0CB3, 0x4ED8AA4A, 0x5B9CCA4F, 0x682E6FF3,
    0x748F82EE, 0x78A5636F, 0x84C87814, 0x8CC70208, 0x90BEFFFA, 0xA4506CEB, 0xBEF9A3F7, 0xC67178F2]"

definition init256 :: "u32 list" where
  "init256 = [0x6A09E667, 0xBB67AE85, 0x3C6EF372, 0xA54FF53A,
              0x510E527F, 0x9B05688C, 0x1F83D9AB, 0x5BE0CD19]"

definition rotr :: "nat \<Rightarrow> u32 \<Rightarrow> u32" where
  "rotr n x = word_rotr n x"

fun be_words :: "string \<Rightarrow> u32 list" where
  "be_words (b0 # b1 # b2 # b3 # bs) =
     (push_bit 24 (of_char b0) OR push_bit 16 (of_char b1) OR push_bit 8 (of_char b2)
        OR of_char b3) # be_words bs"
| "be_words _ = []"

fun schedule :: "nat \<Rightarrow> u32 list \<Rightarrow> u32 list" where
  "schedule 0 w = w"
| "schedule (Suc n) w =
     (let i = length w;
          v1 = w ! (i - 2);
          t1 = rotr 17 v1 XOR rotr 19 v1 XOR drop_bit 10 v1;
          v2 = w ! (i - 15);
          t2 = rotr 7 v2 XOR rotr 18 v2 XOR drop_bit 3 v2
      in schedule n (w @ [t1 + w ! (i - 7) + t2 + w ! (i - 16)]))"

fun round256 :: "u32 list \<Rightarrow> u32 \<times> u32 \<Rightarrow> u32 list" where
  "round256 [a, b, c, d, e, f, g, h] (k, w) =
     (let t1 = h + (rotr 6 e XOR rotr 11 e XOR rotr 25 e) + ((e AND f) XOR (NOT e AND g))
                 + k + w;
          t2 = (rotr 2 a XOR rotr 13 a XOR rotr 22 a) + ((a AND b) XOR (a AND c) XOR (b AND c))
      in [t1 + t2, a, b, c, d + t1, e, f, g])"
| "round256 hs _ = hs"

definition block256 :: "u32 list \<Rightarrow> string \<Rightarrow> u32 list" where
  "block256 hs p =
     (let w = schedule 48 (be_words p)
      in map2 (+) hs (foldl round256 hs (zip K256 w)))"

function blocks256 :: "u32 list \<Rightarrow> string \<Rightarrow> u32 list" where
  "blocks256 hs p =
     (if 64 \<le> length p then blocks256 (block256 hs (take 64 p)) (drop 64 p) else hs)"
  by pat_completeness auto
termination
  by (relation "measure (\<lambda>(hs, p). length p)") auto

declare blocks256.simps [simp del]

definition be_bytes64 :: "64 word \<Rightarrow> string" where
  "be_bytes64 n = map (\<lambda>i. char_of (uint (drop_bit (8 * (7 - i)) n))) [0..<8]"

definition be_bytes32 :: "u32 \<Rightarrow> string" where
  "be_bytes32 x = [char_of (uint (drop_bit 24 x)), char_of (uint (drop_bit 16 x)),
                   char_of (uint (drop_bit 8 x)), char_of (uint x)]"

definition padding :: "nat \<Rightarrow> string" where
  "padding len =
     (let t = (if len mod 64 < 56 then 56 - len mod 64 else 64 + 56 - len mod 64)
      in CHR 0x80 # replicate (t - 1) (CHR 0x00) @ be_bytes64 (push_bit 3 (of_nat len)))"

definition Sum256 :: "string \<Rightarrow> string" where
  "Sum256 data = concat (map be_bytes32 (blocks256 init256 (data @ padding (length data))))"

text \<open>\<^verbatim>\<open>hex.EncodeToString\<close>: two characters of \<open>hextable\<close> for every byte.\<close>

definition hextable :: string where
  "hextable = ''0123456789abcdef''"

definition EncodeToString :: "string \<Rightarrow> string" where
  "EncodeToString src =
     concat (map (\<lambda>v. [hextable ! drop_bit 4 (of_char v :: nat),
                        hextable ! ((of_char v :: nat) AND 0x0f)]) src)"

section \<open>Paths\<close>

text \<open>
  \<^verbatim>\<open>path/filepath\<close> on a Unix-like system, where the separator is \<open>/\<close> and there is no
  volume name. \<open>filepath_Clean_loop rooted out dotdot p\<close> is the main loop of \<^verbatim>\<open>filepath.Clean\<close>:
  \<open>out\<close> is the buffer written so far, \<open>p\<close> the part of the path still to read, and
  \<open>dotdot\<close> the index in \<open>out\<close> where a \<open>..\<close> element must stop backtracking.
\<close>

definition Separator :: char where
  "Separator = CHR ''/''"

function backtrack :: "string \<Rightarrow> nat \<Rightarrow> nat \<Rightarrow> nat" where
  "backtrack buf dotdot w =
     (if dotdot < w \<and> buf ! w \<noteq> Separator then backtrack buf dotdot (w - 1) else w)"
  by pat_completeness auto
termination
  by (relation "measure (\<lambda>(buf, dotdot, w). w)") auto

declare backtrack.simps [simp del]

function filepath_Clean_loop :: "bool \<Rightarrow> string \<Rightarrow> nat \<Rightarrow> string \<Rightarrow> string" where
  "filepath_Clean_loop rooted out dotdot p =
     (case p of
        [] \<Rightarrow> out
      | c # rest \<Rightarrow>
          if c = Separator then filepath_Clean_loop rooted out dotdot rest
          else if c = CHR ''.'' \<and> (rest = [] \<or> hd rest = Separator) then
            filepath_Clean_loop rooted out dotdot rest
          else if c = CHR ''.'' \<and> hd rest = CHR ''.''
                  \<and> (tl rest = [] \<or> hd (tl rest) = Separator) then
            (if dotdot < length out then
               filepath_Clean_loop rooted (take (backtrack out dotdot (length out - 1)) out) dotdot (tl rest)
             else if \<not> rooted then
               (let out' = (if 0 < length out then out @ [Separator] else out) @ ''..''
                in filepath_Clean_loop rooted out' (length out') (tl rest))
             else filepath_Clean_loop rooted out dotdot (tl rest))
          else
            (let out' = (if rooted \<and> length out \<noteq> 1 \<or> \<not> rooted \<and> length out \<noteq> 0
                         then out @ [Separator] else out)
             in filepath_Clean_loop rooted (out' @ takeWhile (\<lambda>x. x \<noteq> Separator) p) dotdot
                  (dropWhile (\<lambda>x. x \<noteq> Separator) p)))"
  by pat_completeness auto
termination
proof (relation "measure (\<lambda>(rooted, out, dotdot, p). length p)", goal_cases)
  case 1
  show ?case by simp
next
  case (2 rooted out dotdot p c rest)
  then show ?case by simp
next
  case (3 rooted out dotdot p c rest)
  then show ?case by simp
next
  case (4 rooted out dotdot p c rest)
  then show ?case by simp
next
  case (5 rooted out dotdot p c rest)
  then show ?case by simp
next
  case (6 rooted out dotdot p c rest)
  then show ?case by simp
next
  case (7 rooted out dotdot p c rest)
  have "length (dropWhile (\<lambda>x. x \<noteq> Separator) rest) \<le> length rest"
    by (rule length_dropWhile_le)
  with 7 show ?case by simp
qed

declare filepath_Clean_loop.simps [simp del]

definition filepath_Clean :: "string \<Rightarrow> string" where
  "filepath_Clean path =
     (if path = [] then ''.''
      else
        (let rooted = (hd path = Separator);
             out = (if rooted then filepath_Clean_loop True [Separator] 1 (tl path)
                    else filepath_Clean_loop False [] 0 path)
         in if out = [] then ''.'' else out))"

fun strings_Join :: "string list \<Rightarrow> string \<Rightarrow> string" where
  "strings_Join [] sep = []"
| "strings_Join [e] sep = e"
| "strings_Join (e # es) sep = e @ sep @ strings_Join es sep"

fun filepath_Join :: "string list \<Rightarrow> string" where
  "filepath_Join [] = []"
| "filepath_Join (e # es) = (if e \<noteq> [] then filepath_Clean (strings_Join (e # es) [Separator]) else filepath_Join es)"

fun last_separator :: "string \<Rightarrow> nat \<Rightarrow> nat" where
  "last_separator path 0 = 0"
| "last_separator path (Suc i) =
     (if path ! i \<noteq> Separator then last_separator path i else Suc i)"

definition filepath_Dir :: "string \<Rightarrow> string" where
  "filepath_Dir path = filepath_Clean (take (last_separator path (length path)) path)"

section \<open>Errors\<close>

text \<open>
  A Go \<^verbatim>\<open>error\<close> value. \<open>ErrorString msg\<close> is \<^verbatim>\<open>fmt.Errorf(msg)\<close> without a wrapped error,
  \<open>WrapError msg err\<close> is \<^verbatim>\<open>fmt.Errorf(msg + ": %w", err)\<close>, \<open>PathError op path e\<close> is the
  \<^verbatim>\<open>*fs.PathError\<close> of package \<^verbatim>\<open>os\<close>, and \<open>ExternalError msg\<close> is any other error that comes
  from outside the package (a failed command, an undefined home directory).
\<close>

datatype fault = EACCES | EIO | ENOSPC | EROFS

datatype errno = ENOENT | ENOTDIR | EISDIR | EEXIST | Fault fault

datatype error =
    ErrorString string
  | WrapError string error
  | PathError string string errno
  | ExternalError string

fun os_IsNotExist :: "error \<Rightarrow> bool" where
  "os_IsNotExist (PathError op path e) = (e = ENOENT)"
| "os_IsNotExist _ = False"

section \<open>The machine the package runs on\<close>

text \<open>
  Everything outside the package that the code observes or changes. \<open>GOOS\<close>, \<open>commands\<close>
  (what running a command line prints, or the error of running it) and \<open>home_dir\<close> (the
  outcome of \<^verbatim>\<open>os.UserHomeDir\<close>) are fixed. \<open>nodes\<close> is the file system: the regular files,
  with their content and permission bits, and the directories. The three fault maps name the
  paths on which reading, creating a directory or writing fails for a reason of the
  environment (permission denied, input/output error, disk full, read-only file system); they
  are fixed too. \<open>calls\<close> records, in order, every call that leaves the package.
\<close>

datatype node = Regular string nat | Directory nat

type_synonym tree = "string \<Rightarrow> node option"

datatype call =
    Exec "string list"
  | UserHomeDirCall
  | ReadFileCall string
  | MkdirAllCall string nat
  | WriteFileCall string string nat

record world =
  GOOS :: string
  commands :: "string list \<Rightarrow> error + string"
  home_dir :: "error + string"
  nodes :: tree
  read_fault :: "string \<Rightarrow> fault option"
  mkdir_fault :: "string \<Rightarrow> fault option"
  write_fault :: "string \<Rightarrow> fault option"
  calls :: "call list"

definition record_call :: "call \<Rightarrow> world \<Rightarrow> world" where
  "record_call c w = w\<lparr>calls := calls w @ [c]\<rparr>"

text \<open>\<^verbatim>\<open>exec.Command(name, args...).Output()\<close>\<close>

definition exec_Output :: "string list \<Rightarrow> world \<Rightarrow> (error + string) \<times> world" where
  "exec_Output argv w = (commands w argv, record_call (Exec argv) w)"

definition os_UserHomeDir :: "world \<Rightarrow> (error + string) \<times> world" where
  "os_UserHomeDir w = (home_dir w, record_call UserHomeDirCall w)"

text \<open>
  The file system calls are modelled in two layers: a function on the tree of nodes, which
  says what the call finds and how it leaves the tree, and the call itself, which applies
  that function to the machine and records the call.

  \<^verbatim>\<open>os.ReadFile\<close>: the content of a regular file; \<open>ENOENT\<close> when nothing has that name;
  another error when the environment refuses the read, the name is a directory, or the
  name lies below a regular file.
\<close>

definition read_file :: "(string \<Rightarrow> fault option) \<Rightarrow> string \<Rightarrow> tree \<Rightarrow> error + string" where
  "read_file faults name t =
     (case faults name of
        Some f \<Rightarrow> Inl (PathError ''open'' name (Fault f))
      | None \<Rightarrow>
          (case t name of
             Some (Regular data perm) \<Rightarrow> Inr data
           | Some (Directory perm) \<Rightarrow> Inl (PathError ''read'' name EISDIR)
           | None \<Rightarrow>
               (case t (filepath_Dir name) of
                  Some (Regular data perm) \<Rightarrow> Inl (PathError ''open'' name ENOTDIR)
                | _ \<Rightarrow> Inl (PathError ''open'' name ENOENT))))"

definition os_ReadFile :: "string \<Rightarrow> world \<Rightarrow> (error + string) \<times> world" where
  "os_ReadFile name w =
     (read_file (read_fault w) name (nodes w), record_call (ReadFileCall name) w)"

text \<open>\<^verbatim>\<open>os.Mkdir\<close>, which \<^verbatim>\<open>os.MkdirAll\<close> calls once the parent exists.\<close>

definition make_dir :: "(string \<Rightarrow> fault option) \<Rightarrow> string \<Rightarrow> nat \<Rightarrow> tree \<Rightarrow> error option \<times> tree" where
  "make_dir faults name perm t =
     (case faults name of
        Some f \<Rightarrow> (Some (PathError ''mkdir'' name (Fault f)), t)
      | None \<Rightarrow>
          (case t name of
             Some n \<Rightarrow> (Some (PathError ''mkdir'' name EEXIST), t)
           | None \<Rightarrow> (None, t(name \<mapsto> Directory perm))))"

text \<open>
  The parent that \<^verbatim>\<open>os.MkdirAll\<close> extracts from a path: trailing separators are skipped,
  then the last element, and the separator before it is left out.
\<close>

definition parent_of :: "string \<Rightarrow> string" where
  "parent_of path =
     rev (drop 1 (dropWhile (\<lambda>c. c \<noteq> Separator) (dropWhile (\<lambda>c. c = Separator) (rev path))))"

text \<open>
  The recursion of \<^verbatim>\<open>os.MkdirAll\<close>: a directory that exists is left alone, a regular file in
  the way is \<open>ENOTDIR\<close>, otherwise the parent is made first and then the directory itself.
\<close>

function MkdirAll_rec :: "(string \<Rightarrow> fault option) \<Rightarrow> string \<Rightarrow> nat \<Rightarrow> tree \<Rightarrow> error option \<times> tree" where
  "MkdirAll_rec faults path perm t =
     (case t path of
        Some (Directory p) \<Rightarrow> (None, t)
      | Some (Regular data p) \<Rightarrow> (Some (PathError ''mkdir'' path ENOTDIR), t)
      | None \<Rightarrow>
          (case (if 0 < length (parent_of path) then MkdirAll_rec faults (parent_of path) perm t
                 else (None, t)) of
             (Some err, t') \<Rightarrow> (Some err, t')
           | (None, t') \<Rightarrow>
               (case make_dir faults path perm t' of
                  (Some err, t'') \<Rightarrow>
                    (case t'' path of
                       Some (Directory p) \<Rightarrow> (None, t'')
                     | _ \<Rightarrow> (Some err, t''))
                | (None, t'') \<Rightarrow> (None, t''))))"
  by pat_completeness auto
termination
proof (relation "measure (\<lambda>(faults, path, perm, t). length path)", goal_cases)
  case 1
  show ?case by simp
next
  case (2 faults path perm t)
  have "length (dropWhile (\<lambda>c. c \<noteq> Separator) (dropWhile (\<lambda>c. c = Separator) (rev path)))
          \<le> length path"
    using length_dropWhile_le [of "\<lambda>c. c \<noteq> Separator" "dropWhile (\<lambda>c. c = Separator) (rev path)"]
          length_dropWhile_le [of "\<lambda>c. c = Separator" "rev path"]
    by simp
  with 2 show ?case by (simp add: parent_of_def)
qed

declare MkdirAll_rec.simps [simp del]

definition os_MkdirAll :: "string \<Rightarrow> nat \<Rightarrow> world \<Rightarrow> error option \<times> world" where
  "os_MkdirAll path perm w =
     (case MkdirAll_rec (mkdir_fault w) path perm (nodes w) of
        (r, t) \<Rightarrow> (r, record_call (MkdirAllCall path perm) (w\<lparr>nodes := t\<rparr>)))"

text \<open>
  \<^verbatim>\<open>os.WriteFile\<close>: an existing file is truncated and keeps its permission bits, a new file
  is created with \<open>perm\<close> in a directory that exists, and the whole of \<open>data\<close> is written.
\<close>

definition write_file ::
  "(string \<Rightarrow> fault option) \<Rightarrow> string \<Rightarrow> string \<Rightarrow> nat \<Rightarrow> tree \<Rightarrow> error option \<times> tree" where
  "write_file faults name data perm t =
     (case faults name of
        Some f \<Rightarrow> (Some (PathError ''open'' name (Fault f)), t)
      | None \<Rightarrow>
          (case t name of
             Some (Directory p) \<Rightarrow> (Some (PathError ''open'' name EISDIR), t)
           | Some (Regular old p) \<Rightarrow> (None, t(name \<mapsto> Regular data p))
           | None \<Rightarrow>
               (case t (filepath_Dir name) of
                  Some (Directory p) \<Rightarrow> (None, t(name \<mapsto> Regular data perm))
                | Some (Regular old p) \<Rightarrow> (Some (PathError ''open'' name ENOTDIR), t)
                | None \<Rightarrow> (Some (PathError ''open'' name ENOENT), t))))"

definition os_WriteFile :: "string \<Rightarrow> string \<Rightarrow> nat \<Rightarrow> world \<Rightarrow> error option \<times> world" where
  "os_WriteFile name data perm w =
     (case write_file (write_fault w) name data perm (nodes w) of
        (r, t) \<Rightarrow> (r, record_call (WriteFileCall name data perm) (w\<lparr>nodes := t\<rparr>)))"

section \<open>The package\<close>

definition DefaultIDFileName :: string where
  "DefaultIDFileName = ''.device_id''"

record Config =
  StorageDir :: string
  IDFileName :: string

record Manager =
  config :: Config

definition NewManager :: "Config \<Rightarrow> Manager" where
  "NewManager cfg =
     \<lparr>config = (if IDFileName cfg = [] then cfg\<lparr>IDFileName := DefaultIDFileName\<rparr> else cfg)\<rparr>"

definition system_command :: "string \<Rightarrow> string list" where
  "system_command goos =
     (if goos = ''windows'' then [''wmic'', ''csproduct'', ''get'', ''UUID'']
      else if goos = ''darwin'' then [''ioreg'', ''-d2'', ''-c'', ''IOPlatformExpertDevice'']
      else [''cat'', ''/etc/machine-id''])"

definition getSystemInfo :: "world \<Rightarrow> (error + string) \<times> world" where
  "getSystemInfo w =
     (case exec_Output (system_command (GOOS w)) w of
        (Inl err, w') \<Rightarrow> (Inl (WrapError ''failed to get system info'' err), w')
      | (Inr output, w') \<Rightarrow> (Inr output, w'))"

definition GenerateDeviceID :: "Manager \<Rightarrow> world \<Rightarrow> (error + string) \<times> world" where
  "GenerateDeviceID m w =
     (case getSystemInfo w of
        (Inl err, w') \<Rightarrow> (Inl (WrapError ''failed to generate device ID'' err), w')
      | (Inr info, w') \<Rightarrow> (Inr (EncodeToString (Sum256 info)), w'))"

definition GetDeviceIDPath :: "Manager \<Rightarrow> world \<Rightarrow> (error + string) \<times> world" where
  "GetDeviceIDPath m w =
     (if StorageDir (config m) \<noteq> [] then
        (Inr (filepath_Join [StorageDir (config m), IDFileName (config m)]), w)
      else
        (case os_UserHomeDir w of
           (Inl err, w') \<Rightarrow> (Inl (WrapError ''failed to get user home directory'' err), w')
         | (Inr home, w') \<Rightarrow>
             (Inr (filepath_Join [filepath_Join [home, ''.parity''], IDFileName (config m)]), w')))"

text \<open>The permission arguments are \<open>0o700 = 448\<close> for the directory and \<open>0o600 = 384\<close> for the file.\<close>

definition SaveDeviceID :: "Manager \<Rightarrow> string \<Rightarrow> world \<Rightarrow> error option \<times> world" where
  "SaveDeviceID m deviceID w =
     (if \<not> IsValidSHA256 deviceID then (Some (ErrorString ''invalid device ID format''), w)
      else
        (case GetDeviceIDPath m w of
           (Inl err, w1) \<Rightarrow> (Some (WrapError ''failed to get device ID path'' err), w1)
         | (Inr path, w1) \<Rightarrow>
             (case os_MkdirAll (filepath_Dir path) 448 w1 of
                (Some err, w2) \<Rightarrow> (Some (WrapError ''failed to create directory'' err), w2)
              | (None, w2) \<Rightarrow>
                  (case os_WriteFile path deviceID 384 w2 of
                     (Some err, w3) \<Rightarrow> (Some (WrapError ''failed to write device ID'' err), w3)
                   | (None, w3) \<Rightarrow> (None, w3)))))"

definition VerifyDeviceID :: "Manager \<Rightarrow> world \<Rightarrow> (error + string) \<times> world" where
  "VerifyDeviceID m w =
     (case GetDeviceIDPath m w of
        (Inl err, w1) \<Rightarrow> (Inl (WrapError ''failed to get device ID path'' err), w1)
      | (Inr path, w1) \<Rightarrow>
          (case os_ReadFile path w1 of
             (Inl err, w2) \<Rightarrow>
               (if os_IsNotExist err then
                  (case GenerateDeviceID m w2 of
                    (Inl err, w3) \<Rightarrow> (Inl (WrapError ''failed to generate new device ID'' err), w3)
                  | (Inr newID, w3) \<Rightarrow>
                      (case SaveDeviceID m newID w3 of
                         (Some err, w4) \<Rightarrow>
                           (Inl (WrapError ''failed to save new device ID'' err), w4)
                       | (None, w4) \<Rightarrow> (Inr newID, w4)))
                else (Inl (WrapError ''failed to read device ID'' err), w2))
           | (Inr storedID, w2) \<Rightarrow>
               (if \<not> IsValidSHA256 storedID then
                  (case GenerateDeviceID m w2 of
                    (Inl err, w3) \<Rightarrow> (Inl (WrapError ''failed to generate new device ID'' err), w3)
                  | (Inr newID, w3) \<Rightarrow>
                      (case SaveDeviceID m newID w3 of
                         (Some err, w4) \<Rightarrow>
                           (Inl (WrapError ''failed to save new device ID'' err), w4)
                       | (None, w4) \<Rightarrow> (Inr newID, w4)))
                else (Inr storedID, w2))))"

section \<open>Notions used to state the properties\<close>

text \<open>The calls that were made between an earlier state of the machine and a later one.\<close>

definition new_calls :: "world \<Rightarrow> world \<Rightarrow> call list" where
  "new_calls w w' = drop (length (calls w)) (calls w')"

text \<open>The outcome of the platform probe's command on this machine.\<close>

definition probe :: "world \<Rightarrow> error + string" where
  "probe w = commands w (system_command (GOOS w))"

text \<open>The machine after \<open>n\<close> further calls of \<^verbatim>\<open>VerifyDeviceID\<close>.\<close>

fun verify_again :: "nat \<Rightarrow> Manager \<Rightarrow> world \<Rightarrow> world" where
  "verify_again 0 m w = w"
| "verify_again (Suc n) m w = verify_again n m (snd (VerifyDeviceID m w))"

text \<open>
  A Linux machine for the examples: the probe's command has the given outcome, the home
  directory is \<open>/home/u\<close>, the file system is the given one, nothing fails for a reason of
  the environment, and no call has been made yet.
\<close>

definition linux_machine :: "(error + string) \<Rightarrow> tree \<Rightarrow> world" where
  "linux_machine out t =
     \<lparr>GOOS = ''linux'',
      commands = (\<lambda>argv. if argv = [''cat'', ''/etc/machine-id''] then out
                          else Inl (ExternalError ''executable file not found'')),
      home_dir = Inr ''/home/u'',
      nodes = t,
      read_fault = (\<lambda>name. None),
      mkdir_fault = (\<lambda>name. None),
      write_fault = (\<lambda>name. None),
      calls = []\<rparr>"

text \<open>A manager for the examples, with the file \<open>/d/id\<close>.\<close>

definition example_manager :: Manager where
  "example_manager = NewManager \<lparr>StorageDir = ''/d'', IDFileName = ''id''\<rparr>"

section \<open>The fingerprint shape\<close>

lemma decoderune_rune: "0x7F < fst (decoderune s)"
  by (simp add: decoderune_def Let_def runeError_def)

lemma byte_eq_char: "byte c = of_char d \<Longrightarrow> c = d"
  by (simp add: byte_def)

lemma hex_char_rune: "hex_char c \<longleftrightarrow> hex_rune (byte c)"
proof
  assume "hex_char c" then show "hex_rune (byte c)"
    by (auto simp: hex_char_def hex_rune_def byte_def)
next
  assume h: "hex_rune (byte c)"
  from h have "byte c = 48 \<or> byte c = 49 \<or> byte c = 50 \<or> byte c = 51 \<or> byte c = 52 \<or> byte c = 53 \<or> byte c = 54 \<or> byte c = 55 \<or> byte c = 56 \<or> byte c = 57 \<or> byte c = 97 \<or> byte c = 98 \<or> byte c = 99 \<or> byte c = 100 \<or> byte c = 101 \<or> byte c = 102"
    unfolding hex_rune_def by arith
  then have "c \<in> set ''0123456789abcdef''"
    by (elim disjE) (simp_all add: byte_eq_char)
  then show "hex_char c" by (simp add: hex_char_def)
qed

lemma loop_iff: "IsValidSHA256_loop s \<longleftrightarrow> list_all hex_char s"
proof (induction s rule: IsValidSHA256_loop.induct)
  case (1 s)
  show ?case
  proof (cases s)
    case Nil
    then show ?thesis by (subst IsValidSHA256_loop.simps) simp
  next
    case (Cons c cs)
    show ?thesis
    proof (cases "byte c < 0x80")
      case True
      then have nr: "next_rune s = (byte c, 1)" using Cons by (simp add: next_rune_def)
      show ?thesis
      proof (cases "hex_rune (byte c)")
        case True
        then have hc: "hex_char c" by (simp add: hex_char_rune)
        from 1 nr Cons True hc show ?thesis
          by (subst IsValidSHA256_loop.simps) simp
      next
        case False
        then have hc: "\<not> hex_char c" by (simp add: hex_char_rune)
        from nr Cons False hc show ?thesis
          by (subst IsValidSHA256_loop.simps) simp
      qed
    next
      case False
      then have nr: "next_rune s = decoderune s" using Cons by (simp add: next_rune_def)
      have "\<not> hex_rune (fst (decoderune s))"
        using decoderune_rune [of s] by (simp add: hex_rune_def)
      moreover have "\<not> hex_char c" using False by (simp add: hex_char_rune hex_rune_def)
      ultimately show ?thesis using nr Cons
        by (subst IsValidSHA256_loop.simps) simp
    qed
  qed
qed

lemma IsValidSHA256_iff: "IsValidSHA256 s \<longleftrightarrow> fingerprint_shape s"
  by (simp add: IsValidSHA256_def fingerprint_shape_def loop_iff)

lemma IsValidSHA256_shape:
  "IsValidSHA256 s \<longleftrightarrow> length s = 64 \<and> (\<forall>c \<in> set s. c \<in> set ''0123456789abcdef'')"
proof -
  have "hex_char = (\<lambda>c. c \<in> set ''0123456789abcdef'')"
    by (rule ext) (rule hex_char_def)
  then show ?thesis
    by (simp only: IsValidSHA256_iff fingerprint_shape_def list_all_iff)
qed

section \<open>The digest\<close>

lemma round256_length: "length hs = 8 \<Longrightarrow> length (round256 hs kw) = 8"
proof -
  assume "length hs = 8"
  then obtain a b c d e f g h where "hs = [a, b, c, d, e, f, g, h]"
    by (auto simp: length_Suc_conv numeral_eq_Suc)
  then show ?thesis by (cases kw) (simp add: Let_def)
qed

lemma foldl_round256_length: "length hs = 8 \<Longrightarrow> length (foldl round256 hs kws) = 8"
  by (induction kws arbitrary: hs) (simp_all add: round256_length)

lemma block256_length: "length hs = 8 \<Longrightarrow> length (block256 hs p) = 8"
  by (simp add: block256_def Let_def foldl_round256_length)

lemma blocks256_length: "length hs = 8 \<Longrightarrow> length (blocks256 hs p) = 8"
proof (induction hs p rule: blocks256.induct)
  case (1 hs p)
  show ?case
  proof (cases "64 \<le> length p")
    case True
    with 1 show ?thesis by (subst blocks256.simps) (simp add: block256_length)
  next
    case False
    with 1 show ?thesis by (subst blocks256.simps) simp
  qed
qed

lemma concat_be_bytes32_length: "length (concat (map be_bytes32 ws)) = 4 * length ws"
  by (induction ws) (simp_all add: be_bytes32_def)

lemma Sum256_length: "length (Sum256 data) = 32"
  by (simp add: Sum256_def concat_be_bytes32_length blocks256_length init256_def)

lemma EncodeToString_length: "length (EncodeToString src) = 2 * length src"
  by (induction src) (simp_all add: EncodeToString_def)

lemma hextable_hi: "hex_char (hextable ! drop_bit 4 (of_char v :: nat))"
proof -
  have "(of_char v :: nat) < 256" by simp
  then have "(of_char v :: nat) div 16 < 16"
    by presburger
  then have "drop_bit 4 (of_char v :: nat) < 16"
    by (simp add: drop_bit_eq_div)
  then have "hextable ! drop_bit 4 (of_char v :: nat) \<in> set hextable"
    by (intro nth_mem) (simp add: hextable_def)
  then show ?thesis by (simp add: hex_char_def hextable_def)
qed

lemma hextable_lo: "hex_char (hextable ! ((of_char v :: nat) AND 0x0f))"
proof -
  have "(of_char v :: nat) AND 0x0f \<le> 0x0f"
    by (metis AND_upper2 neg_le_0_iff_le negative_zle_0 of_nat_and_eq of_nat_le_iff)
  then have "hextable ! ((of_char v :: nat) AND 0x0f) \<in> set hextable"
    by (intro nth_mem) (simp add: hextable_def)
  then show ?thesis by (simp add: hex_char_def hextable_def)
qed

lemma EncodeToString_hex: "list_all hex_char (EncodeToString src)"
  by (induction src) (simp_all add: EncodeToString_def hextable_hi hextable_lo)

lemma IsValidSHA256_digest: "IsValidSHA256 (EncodeToString (Sum256 data))"
  by (simp add: IsValidSHA256_iff fingerprint_shape_def EncodeToString_length Sum256_length
      EncodeToString_hex)

text \<open>The test vector of FIPS 180-4 for the message \<open>abc\<close>, evaluated on the model.\<close>

lemma Sum256_abc:
  "EncodeToString (Sum256 ''abc'') =
     ''ba7816bf8f01cfea414140de5dae2223b00361a396177a9cb410ff61f20015ad''"
  by code_simp

section \<open>The calls of the package, one at a time\<close>

lemma GetDeviceIDPath_fst:
  "fst (GetDeviceIDPath m w) =
     (if StorageDir (config m) \<noteq> [] then
        Inr (filepath_Join [StorageDir (config m), IDFileName (config m)])
      else (case home_dir w of
              Inl err \<Rightarrow> Inl (WrapError ''failed to get user home directory'' err)
            | Inr home \<Rightarrow>
                Inr (filepath_Join [filepath_Join [home, ''.parity''], IDFileName (config m)])))"
  by (simp add: GetDeviceIDPath_def os_UserHomeDir_def split: sum.splits)

lemma GetDeviceIDPath_snd:
  "snd (GetDeviceIDPath m w) =
     (if StorageDir (config m) \<noteq> [] then w else record_call UserHomeDirCall w)"
  by (simp add: GetDeviceIDPath_def os_UserHomeDir_def split: sum.splits)

lemma record_call_simps [simp]:
  "GOOS (record_call c w) = GOOS w"
  "commands (record_call c w) = commands w"
  "home_dir (record_call c w) = home_dir w"
  "nodes (record_call c w) = nodes w"
  "read_fault (record_call c w) = read_fault w"
  "mkdir_fault (record_call c w) = mkdir_fault w"
  "write_fault (record_call c w) = write_fault w"
  "calls (record_call c w) = calls w @ [c]"
  by (simp_all add: record_call_def)

lemma GetDeviceIDPath_record_call [simp]:
  "fst (GetDeviceIDPath m (record_call c w)) = fst (GetDeviceIDPath m w)"
  by (simp add: GetDeviceIDPath_fst record_call_def)

lemma os_ReadFile_fst_record_call [simp]:
  "fst (os_ReadFile name (record_call c w)) = fst (os_ReadFile name w)"
  by (simp add: os_ReadFile_def)

lemma probe_calls [simp]: "probe (w\<lparr>calls := cs\<rparr>) = probe w"
  by (simp add: probe_def)

lemma GenerateDeviceID_eq:
  "GenerateDeviceID m w =
     ((case probe w of
         Inl err \<Rightarrow> Inl (WrapError ''failed to generate device ID''
                           (WrapError ''failed to get system info'' err))
       | Inr info \<Rightarrow> Inr (EncodeToString (Sum256 info))),
      record_call (Exec (system_command (GOOS w))) w)"
  by (simp add: GenerateDeviceID_def getSystemInfo_def exec_Output_def probe_def
      split: sum.splits)

lemma GetDeviceIDPath_fst_calls [simp]:
  "fst (GetDeviceIDPath m (w\<lparr>calls := cs\<rparr>)) = fst (GetDeviceIDPath m w)"
  by (simp add: GetDeviceIDPath_fst)

lemma os_ReadFile_fst_calls [simp]:
  "fst (os_ReadFile name (w\<lparr>calls := cs\<rparr>)) = fst (os_ReadFile name w)"
  by (simp add: os_ReadFile_def)

lemma os_MkdirAll_eq:
  "os_MkdirAll path perm w =
     (fst (MkdirAll_rec (mkdir_fault w) path perm (nodes w)),
      w\<lparr>nodes := snd (MkdirAll_rec (mkdir_fault w) path perm (nodes w)),
        calls := calls w @ [MkdirAllCall path perm]\<rparr>)"
  by (simp add: os_MkdirAll_def record_call_def split: prod.splits)

lemma os_WriteFile_eq:
  "os_WriteFile name data perm w =
     (fst (write_file (write_fault w) name data perm (nodes w)),
      w\<lparr>nodes := snd (write_file (write_fault w) name data perm (nodes w)),
        calls := calls w @ [WriteFileCall name data perm]\<rparr>)"
  by (simp add: os_WriteFile_def record_call_def split: prod.splits)

lemma GetDeviceIDPath_eq2:
  "GetDeviceIDPath m w =
     (fst (GetDeviceIDPath m w),
      w\<lparr>calls := calls w @ (if StorageDir (config m) \<noteq> [] then [] else [UserHomeDirCall])\<rparr>)"
  by (simp add: prod_eq_iff GetDeviceIDPath_snd record_call_def)

text \<open>A closed form of SaveDeviceID for an identifier that passes the check.\<close>

lemma SaveDeviceID_eq:
  assumes "IsValidSHA256 deviceID" and "fst (GetDeviceIDPath m w) = Inr path"
  shows "SaveDeviceID m deviceID w =
     (let pre = (if StorageDir (config m) \<noteq> [] then [] else [UserHomeDirCall]);
          dir = filepath_Dir path;
          made = MkdirAll_rec (mkdir_fault w) dir 448 (nodes w);
          written = write_file (write_fault w) path deviceID 384 (snd made)
      in case fst made of
           Some err \<Rightarrow>
             (Some (WrapError ''failed to create directory'' err),
              w\<lparr>nodes := snd made, calls := calls w @ pre @ [MkdirAllCall dir 448]\<rparr>)
         | None \<Rightarrow>
             (case fst written of
                Some err \<Rightarrow>
                  (Some (WrapError ''failed to write device ID'' err),
                   w\<lparr>nodes := snd written,
                     calls := calls w @ pre @ [MkdirAllCall dir 448, WriteFileCall path deviceID 384]\<rparr>)
              | None \<Rightarrow>
                  (None,
                   w\<lparr>nodes := snd written,
                     calls := calls w @ pre @ [MkdirAllCall dir 448, WriteFileCall path deviceID 384]\<rparr>)))"
proof -
  have g: "GetDeviceIDPath m w =
      (Inr path, w\<lparr>calls := calls w @ (if StorageDir (config m) \<noteq> [] then [] else [UserHomeDirCall])\<rparr>)"
    using GetDeviceIDPath_eq2 [of m w] assms(2) by simp
  show ?thesis
    unfolding SaveDeviceID_def g using assms(1)
    by (simp add: os_MkdirAll_eq os_WriteFile_eq Let_def split: option.splits)
qed

lemma write_file_success:
  assumes "fst (write_file faults name data perm t) = None"
  shows "\<exists>p. snd (write_file faults name data perm t) = t(name \<mapsto> Regular data p)"
  using assms by (auto simp: write_file_def split: option.splits node.splits)

lemma SaveDeviceID_invalid:
  "\<not> IsValidSHA256 deviceID \<Longrightarrow>
     SaveDeviceID m deviceID w = (Some (ErrorString ''invalid device ID format''), w)"
  by (simp add: SaveDeviceID_def)

lemma SaveDeviceID_no_path:
  assumes "IsValidSHA256 deviceID" and "fst (GetDeviceIDPath m w) = Inl err"
  shows "fst (SaveDeviceID m deviceID w) = Some (WrapError ''failed to get device ID path'' err)"
proof -
  obtain w1 where "GetDeviceIDPath m w = (Inl err, w1)"
    using assms(2) by (cases "GetDeviceIDPath m w") simp
  with assms(1) show ?thesis by (simp add: SaveDeviceID_def)
qed

lemma SaveDeviceID_fst_calls:
  "fst (SaveDeviceID m deviceID (w\<lparr>calls := cs\<rparr>)) = fst (SaveDeviceID m deviceID w)"
proof (cases "IsValidSHA256 deviceID")
  case False
  then show ?thesis by (simp add: SaveDeviceID_invalid)
next
  case True
  show ?thesis
  proof (cases "fst (GetDeviceIDPath m w)")
    case (Inl err)
    then have "fst (GetDeviceIDPath m (w\<lparr>calls := cs\<rparr>)) = Inl err" by simp
    with True Inl show ?thesis by (simp only: SaveDeviceID_no_path)
  next
    case (Inr path)
    then have p: "fst (GetDeviceIDPath m (w\<lparr>calls := cs\<rparr>)) = Inr path" by simp
    show ?thesis
      by (simp add: SaveDeviceID_eq [OF True Inr] SaveDeviceID_eq [OF True p] Let_def
          split: option.splits)
  qed
qed

lemma SaveDeviceID_success:
  assumes "fst (SaveDeviceID m deviceID w) = None"
  shows "IsValidSHA256 deviceID
         \<and> (\<exists>path perm. fst (GetDeviceIDPath m w) = Inr path
               \<and> nodes (snd (SaveDeviceID m deviceID w)) path = Some (Regular deviceID perm)
               \<and> WriteFileCall path deviceID 384 \<in> set (new_calls w (snd (SaveDeviceID m deviceID w))))"
proof -
  have v: "IsValidSHA256 deviceID"
    using assms by (cases "IsValidSHA256 deviceID") (simp_all add: SaveDeviceID_invalid)
  obtain path where p: "fst (GetDeviceIDPath m w) = Inr path"
    using assms v SaveDeviceID_no_path [of deviceID m w]
    by (cases "fst (GetDeviceIDPath m w)") auto
  let ?made = "MkdirAll_rec (mkdir_fault w) (filepath_Dir path) 448 (nodes w)"
  let ?written = "write_file (write_fault w) path deviceID 384 (snd ?made)"
  from assms have m: "fst ?made = None" and wr: "fst ?written = None"
    by (auto simp: SaveDeviceID_eq [OF v p] Let_def split: option.splits)
  from write_file_success [OF wr] obtain perm
    where t: "snd ?written = (snd ?made)(path \<mapsto> Regular deviceID perm)" by blast
  have "nodes (snd (SaveDeviceID m deviceID w)) path = Some (Regular deviceID perm)"
    using m wr t by (simp add: SaveDeviceID_eq [OF v p] Let_def)
  moreover have "WriteFileCall path deviceID 384 \<in> set (new_calls w (snd (SaveDeviceID m deviceID w)))"
    using m wr by (simp add: SaveDeviceID_eq [OF v p] Let_def new_calls_def)
  ultimately show ?thesis using v p by blast
qed

text \<open>The calls of the package leave the fixed part of the machine alone.\<close>

lemma SaveDeviceID_environment:
  "GOOS (snd (SaveDeviceID m deviceID w)) = GOOS w
   \<and> commands (snd (SaveDeviceID m deviceID w)) = commands w
   \<and> home_dir (snd (SaveDeviceID m deviceID w)) = home_dir w
   \<and> read_fault (snd (SaveDeviceID m deviceID w)) = read_fault w
   \<and> mkdir_fault (snd (SaveDeviceID m deviceID w)) = mkdir_fault w
   \<and> write_fault (snd (SaveDeviceID m deviceID w)) = write_fault w"
proof (cases "IsValidSHA256 deviceID")
  case False
  then show ?thesis by (simp add: SaveDeviceID_invalid)
next
  case True
  show ?thesis
  proof (cases "fst (GetDeviceIDPath m w)")
    case (Inl err)
    then have "GetDeviceIDPath m w = (Inl err, snd (GetDeviceIDPath m w))"
      by (simp add: prod_eq_iff)
    with True show ?thesis
      by (simp add: SaveDeviceID_def GetDeviceIDPath_snd)
  next
    case (Inr path)
    show ?thesis
      by (simp add: SaveDeviceID_eq [OF True Inr] Let_def split: option.splits)
  qed
qed

lemma read_file_not_exist:
  assumes "read_file faults name t = Inl err" and "os_IsNotExist err"
  shows "faults name = None \<and> t name = None"
  using assms by (auto simp: read_file_def split: option.splits node.splits)

lemma read_file_content:
  assumes "read_file faults name t = Inr data"
  shows "faults name = None \<and> (\<exists>perm. t name = Some (Regular data perm))"
  using assms by (auto simp: read_file_def split: option.splits node.splits)

lemma read_file_regular:
  "faults name = None \<Longrightarrow> t name = Some (Regular data perm) \<Longrightarrow> read_file faults name t = Inr data"
  by (simp add: read_file_def)

lemma case_result_option:
  "(case p of (None, w) \<Rightarrow> a w | (Some err, w) \<Rightarrow> b err w) =
     (case fst p of None \<Rightarrow> a (snd p) | Some err \<Rightarrow> b err (snd p))"
  by (cases p) (simp split: option.splits)


lemma VerifyDeviceID_regenerate_eq:
  assumes p: "fst (GetDeviceIDPath m w) = Inr path"
      and r: "(\<exists>err. fst (os_ReadFile path w) = Inl err \<and> os_IsNotExist err)
              \<or> (\<exists>stored. fst (os_ReadFile path w) = Inr stored \<and> \<not> IsValidSHA256 stored)"
  shows "VerifyDeviceID m w =
     (let w3 = w\<lparr>calls := calls w @ (if StorageDir (config m) \<noteq> [] then [] else [UserHomeDirCall])
                      @ [ReadFileCall path, Exec (system_command (GOOS w))]\<rparr>
      in case probe w of
           Inl err \<Rightarrow>
             (Inl (WrapError ''failed to generate new device ID''
                    (WrapError ''failed to generate device ID''
                      (WrapError ''failed to get system info'' err))), w3)
         | Inr info \<Rightarrow>
             (case fst (SaveDeviceID m (EncodeToString (Sum256 info)) w) of
                Some err \<Rightarrow>
                  (Inl (WrapError ''failed to save new device ID'' err),
                   snd (SaveDeviceID m (EncodeToString (Sum256 info)) w3))
              | None \<Rightarrow>
                  (Inr (EncodeToString (Sum256 info)),
                   snd (SaveDeviceID m (EncodeToString (Sum256 info)) w3))))"
proof -
  let ?pre = "if StorageDir (config m) \<noteq> [] then [] else [UserHomeDirCall]"
  let ?w1 = "w\<lparr>calls := calls w @ ?pre\<rparr>"
  let ?w2 = "w\<lparr>calls := calls w @ ?pre @ [ReadFileCall path]\<rparr>"
  let ?w3 = "w\<lparr>calls := calls w @ ?pre @ [ReadFileCall path, Exec (system_command (GOOS w))]\<rparr>"
  have g: "GetDeviceIDPath m w = (Inr path, ?w1)"
    using GetDeviceIDPath_eq2 [of m w] p by simp
  have rd: "os_ReadFile path ?w1 = (fst (os_ReadFile path w), ?w2)"
    by (simp add: os_ReadFile_def record_call_def)
  have gen: "GenerateDeviceID m ?w2 =
      ((case probe w of
          Inl err \<Rightarrow> Inl (WrapError ''failed to generate device ID''
                            (WrapError ''failed to get system info'' err))
        | Inr info \<Rightarrow> Inr (EncodeToString (Sum256 info))), ?w3)"
    by (simp add: GenerateDeviceID_eq record_call_def)
  from r show ?thesis
  proof
    assume "\<exists>err. fst (os_ReadFile path w) = Inl err \<and> os_IsNotExist err"
    then obtain err where e: "fst (os_ReadFile path w) = Inl err" "os_IsNotExist err" by blast
    show ?thesis
      unfolding VerifyDeviceID_def g
      by (simp add: rd e gen case_result_option SaveDeviceID_fst_calls Let_def
          split: sum.splits option.splits)
  next
    assume "\<exists>stored. fst (os_ReadFile path w) = Inr stored \<and> \<not> IsValidSHA256 stored"
    then obtain stored where e: "fst (os_ReadFile path w) = Inr stored" "\<not> IsValidSHA256 stored"
      by blast
    show ?thesis
      unfolding VerifyDeviceID_def g
      by (simp add: rd e gen case_result_option SaveDeviceID_fst_calls Let_def
          split: sum.splits option.splits)
  qed
qed

lemma regenerate_read_fault:
  assumes "(\<exists>err. fst (os_ReadFile path w) = Inl err \<and> os_IsNotExist err)
           \<or> (\<exists>stored. fst (os_ReadFile path w) = Inr stored \<and> \<not> IsValidSHA256 stored)"
  shows "read_fault w path = None"
  using assms read_file_not_exist [of "read_fault w" path "nodes w"]
    read_file_content [of "read_fault w" path "nodes w"]
  by (auto simp: os_ReadFile_def)

lemma new_calls_mono:
  assumes "length (calls w) \<le> length (calls w')" and "c \<in> set (new_calls w' w'')"
  shows "c \<in> set (new_calls w w'')"
  using assms set_drop_subset_set_drop [of "length (calls w)" "length (calls w')" "calls w''"]
  by (auto simp: new_calls_def)

lemma SaveDeviceID_then_read:
  assumes s: "fst (SaveDeviceID m deviceID w) = None"
      and p: "fst (GetDeviceIDPath m w) = Inr path"
      and f: "read_fault w path = None"
  shows "fst (os_ReadFile path (snd (SaveDeviceID m deviceID w))) = Inr deviceID"
proof -
  from SaveDeviceID_success [OF s] p obtain perm
    where "nodes (snd (SaveDeviceID m deviceID w)) path = Some (Regular deviceID perm)"
    by auto
  moreover have "read_fault (snd (SaveDeviceID m deviceID w)) path = None"
    using f SaveDeviceID_environment [of m deviceID w] by simp
  ultimately show ?thesis
    by (simp add: os_ReadFile_def read_file_regular)
qed

lemma GetDeviceIDPath_fst_cong:
  "home_dir w' = home_dir w \<Longrightarrow> fst (GetDeviceIDPath m w') = fst (GetDeviceIDPath m w)"
  by (simp add: GetDeviceIDPath_fst)

lemma VerifyDeviceID_no_path:
  assumes "fst (GetDeviceIDPath m w) = Inl err"
  shows "VerifyDeviceID m w =
           (Inl (WrapError ''failed to get device ID path'' err), snd (GetDeviceIDPath m w))"
proof -
  obtain w1 where "GetDeviceIDPath m w = (Inl err, w1)"
    using assms by (cases "GetDeviceIDPath m w") simp
  then show ?thesis by (simp add: VerifyDeviceID_def)
qed

lemma VerifyDeviceID_valid_eq:
  assumes "fst (GetDeviceIDPath m w) = Inr path"
      and "fst (os_ReadFile path w) = Inr stored"
      and "IsValidSHA256 stored"
  shows "VerifyDeviceID m w =
     (Inr stored,
      w\<lparr>calls := calls w @ (if StorageDir (config m) \<noteq> [] then [] else [UserHomeDirCall])
                 @ [ReadFileCall path]\<rparr>)"
proof -
  let ?pre = "if StorageDir (config m) \<noteq> [] then [] else [UserHomeDirCall]"
  have g: "GetDeviceIDPath m w = (Inr path, w\<lparr>calls := calls w @ ?pre\<rparr>)"
    using GetDeviceIDPath_eq2 [of m w] assms(1) by simp
  have rd: "os_ReadFile path (w\<lparr>calls := calls w @ ?pre\<rparr>) =
      (Inr stored, w\<lparr>calls := calls w @ ?pre @ [ReadFileCall path]\<rparr>)"
    using assms(2) by (simp add: os_ReadFile_def record_call_def)
  show ?thesis
    unfolding VerifyDeviceID_def g using assms(3) by (simp add: rd)
qed

lemma VerifyDeviceID_read_error_eq:
  assumes "fst (GetDeviceIDPath m w) = Inr path"
      and "fst (os_ReadFile path w) = Inl err"
      and "\<not> os_IsNotExist err"
  shows "VerifyDeviceID m w =
     (Inl (WrapError ''failed to read device ID'' err),
      w\<lparr>calls := calls w @ (if StorageDir (config m) \<noteq> [] then [] else [UserHomeDirCall])
                 @ [ReadFileCall path]\<rparr>)"
proof -
  let ?pre = "if StorageDir (config m) \<noteq> [] then [] else [UserHomeDirCall]"
  have g: "GetDeviceIDPath m w = (Inr path, w\<lparr>calls := calls w @ ?pre\<rparr>)"
    using GetDeviceIDPath_eq2 [of m w] assms(1) by simp
  have rd: "os_ReadFile path (w\<lparr>calls := calls w @ ?pre\<rparr>) =
      (Inl err, w\<lparr>calls := calls w @ ?pre @ [ReadFileCall path]\<rparr>)"
    using assms(2) by (simp add: os_ReadFile_def record_call_def)
  show ?thesis
    unfolding VerifyDeviceID_def g using assms(3) by (simp add: rd)
qed

text \<open>What the regeneration branch leaves behind when saving succeeds.\<close>

lemma VerifyDeviceID_regenerate_saved:
  assumes p: "fst (GetDeviceIDPath m w) = Inr path"
      and r: "(\<exists>err. fst (os_ReadFile path w) = Inl err \<and> os_IsNotExist err)
              \<or> (\<exists>stored. fst (os_ReadFile path w) = Inr stored \<and> \<not> IsValidSHA256 stored)"
      and pr: "probe w = Inr info"
      and sv: "fst (SaveDeviceID m (EncodeToString (Sum256 info)) w) = None"
  shows "fst (VerifyDeviceID m w) = Inr (EncodeToString (Sum256 info))
         \<and> fst (os_ReadFile path (snd (VerifyDeviceID m w))) = Inr (EncodeToString (Sum256 info))
         \<and> WriteFileCall path (EncodeToString (Sum256 info)) 384
              \<in> set (new_calls w (snd (VerifyDeviceID m w)))
         \<and> home_dir (snd (VerifyDeviceID m w)) = home_dir w"
proof -
  define pre where "pre = (if StorageDir (config m) \<noteq> [] then [] else [UserHomeDirCall])"
  let ?cs = "calls w @ pre @ [ReadFileCall path, Exec (system_command (GOOS w))]"
  let ?w3 = "w\<lparr>calls := ?cs\<rparr>"
  let ?id = "EncodeToString (Sum256 info)"
  note eq = VerifyDeviceID_regenerate_eq [OF p r, folded pre_def]
  have v: "VerifyDeviceID m w = (Inr ?id, snd (SaveDeviceID m ?id ?w3))"
    using pr sv by (simp add: eq Let_def)
  have s3: "fst (SaveDeviceID m ?id ?w3) = None"
    using sv by (simp add: SaveDeviceID_fst_calls)
  have p3: "fst (GetDeviceIDPath m ?w3) = Inr path" using p by simp
  have f3: "read_fault ?w3 path = None" using regenerate_read_fault [OF r] by simp
  have rd: "fst (os_ReadFile path (snd (SaveDeviceID m ?id ?w3))) = Inr ?id"
    by (rule SaveDeviceID_then_read [OF s3 p3 f3])
  from SaveDeviceID_success [OF s3] p3
  have "WriteFileCall path ?id 384 \<in> set (new_calls ?w3 (snd (SaveDeviceID m ?id ?w3)))"
    by auto
  then have wr: "WriteFileCall path ?id 384 \<in> set (new_calls w (snd (SaveDeviceID m ?id ?w3)))"
    by (rule new_calls_mono [rotated]) simp
  have "home_dir (snd (SaveDeviceID m ?id ?w3)) = home_dir w"
    using SaveDeviceID_environment [of m ?id ?w3] by simp
  with v rd wr show ?thesis by simp
qed

text \<open>The regeneration branch runs the probe's command, whatever comes of it.\<close>

lemma VerifyDeviceID_regenerate_probed:
  assumes p: "fst (GetDeviceIDPath m w) = Inr path"
      and r: "(\<exists>err. fst (os_ReadFile path w) = Inl err \<and> os_IsNotExist err)
              \<or> (\<exists>stored. fst (os_ReadFile path w) = Inr stored \<and> \<not> IsValidSHA256 stored)"
  shows "Exec (system_command (GOOS w)) \<in> set (new_calls w (snd (VerifyDeviceID m w)))"
proof -
  define pre where "pre = (if StorageDir (config m) \<noteq> [] then [] else [UserHomeDirCall])"
  let ?cs = "calls w @ pre @ [ReadFileCall path, Exec (system_command (GOOS w))]"
  let ?w3 = "w\<lparr>calls := ?cs\<rparr>"
  note eq = VerifyDeviceID_regenerate_eq [OF p r, folded pre_def]
  have calls_grow: "\<exists>rest. calls (snd (SaveDeviceID m newID ?w3)) = ?cs @ rest" for newID
  proof (cases "IsValidSHA256 newID")
    case False
    then show ?thesis by (simp add: SaveDeviceID_invalid)
  next
    case True
    have p3: "fst (GetDeviceIDPath m ?w3) = Inr path" using p by simp
    show ?thesis
      by (simp add: SaveDeviceID_eq [OF True p3] Let_def split: option.splits)
  qed
  show ?thesis
  proof (cases "probe w")
    case (Inl err)
    then show ?thesis by (simp add: eq Let_def new_calls_def)
  next
    case (Inr info)
    from calls_grow [of "EncodeToString (Sum256 info)"] obtain rest
      where "calls (snd (SaveDeviceID m (EncodeToString (Sum256 info)) ?w3)) = ?cs @ rest"
      by blast
    with Inr show ?thesis
      by (simp add: eq Let_def new_calls_def split: option.splits)
  qed
qed

text \<open>The result of the regeneration branch, case by case.\<close>

lemma VerifyDeviceID_regenerate_fst:
  assumes p: "fst (GetDeviceIDPath m w) = Inr path"
      and r: "(\<exists>err. fst (os_ReadFile path w) = Inl err \<and> os_IsNotExist err)
              \<or> (\<exists>stored. fst (os_ReadFile path w) = Inr stored \<and> \<not> IsValidSHA256 stored)"
  shows "fst (VerifyDeviceID m w) =
     (case probe w of
        Inl err \<Rightarrow>
          Inl (WrapError ''failed to generate new device ID''
                (WrapError ''failed to generate device ID''
                  (WrapError ''failed to get system info'' err)))
      | Inr info \<Rightarrow>
          (case fst (SaveDeviceID m (EncodeToString (Sum256 info)) w) of
             Some err \<Rightarrow> Inl (WrapError ''failed to save new device ID'' err)
           | None \<Rightarrow> Inr (EncodeToString (Sum256 info))))"
  by (simp add: VerifyDeviceID_regenerate_eq [OF p r] Let_def split: sum.splits option.splits)

lemma Sum256_abc_newline:
  "EncodeToString (Sum256 ''abc\<newline>'') =
     ''edeaaff3f1774ad2888673770c6d64097e391bc362d7d6fb34982ddf0efd18cb''"
  by code_simp

lemma GenerateDeviceID_fst:
  "fst (GenerateDeviceID m w) =
     (case probe w of
        Inl err \<Rightarrow> Inl (WrapError ''failed to generate device ID''
                          (WrapError ''failed to get system info'' err))
      | Inr info \<Rightarrow> Inr (EncodeToString (Sum256 info)))"
  by (simp add: GenerateDeviceID_eq)

text \<open>A readable, valid identifier file stays so under further calls.\<close>

lemma verify_again_valid:
  assumes "fst (GetDeviceIDPath m w) = Inr path"
      and "fst (os_ReadFile path w) = Inr stored"
      and "IsValidSHA256 stored"
  shows "fst (GetDeviceIDPath m (verify_again n m w)) = Inr path
         \<and> fst (os_ReadFile path (verify_again n m w)) = Inr stored
         \<and> nodes (verify_again n m w) = nodes w"
  using assms
proof (induction n arbitrary: w)
  case 0
  then show ?case by simp
next
  case (Suc n)
  let ?w' = "snd (VerifyDeviceID m w)"
  have v: "VerifyDeviceID m w =
     (Inr stored,
      w\<lparr>calls := calls w @ (if StorageDir (config m) \<noteq> [] then [] else [UserHomeDirCall])
                 @ [ReadFileCall path]\<rparr>)"
    by (rule VerifyDeviceID_valid_eq [OF Suc.prems])
  have p': "fst (GetDeviceIDPath m ?w') = Inr path"
    using Suc.prems(1) by (simp add: v)
  have r': "fst (os_ReadFile path ?w') = Inr stored"
    using Suc.prems(2) by (simp add: v)
  have n': "nodes ?w' = nodes w"
    by (simp add: v)
  from Suc.IH [OF p' r' Suc.prems(3)] n' show ?case by simp
qed

text \<open>The four ways a call of VerifyDeviceID can go, once the path is known.\<close>

lemma read_outcome_cases:
  obtains (valid) stored where "fst (os_ReadFile path w) = Inr stored" "IsValidSHA256 stored"
        | (regenerate) "(\<exists>err. fst (os_ReadFile path w) = Inl err \<and> os_IsNotExist err)
              \<or> (\<exists>stored. fst (os_ReadFile path w) = Inr stored \<and> \<not> IsValidSHA256 stored)"
        | (failure) err where "fst (os_ReadFile path w) = Inl err" "\<not> os_IsNotExist err"
proof (cases "fst (os_ReadFile path w)")
  case (Inl err)
  then show ?thesis using regenerate failure by (cases "os_IsNotExist err") auto
next
  case (Inr stored)
  then show ?thesis using valid regenerate by (cases "IsValidSHA256 stored") auto
qed

text \<open>After a successful call the file is readable and holds the identifier returned.\<close>

lemma VerifyDeviceID_success_leaves_valid:
  assumes "fst (VerifyDeviceID m w) = Inr ident"
  shows "\<exists>path. fst (GetDeviceIDPath m w) = Inr path
           \<and> fst (GetDeviceIDPath m (snd (VerifyDeviceID m w))) = Inr path
           \<and> fst (os_ReadFile path (snd (VerifyDeviceID m w))) = Inr ident
           \<and> IsValidSHA256 ident
           \<and> (nodes w path = None \<longrightarrow>
                 WriteFileCall path ident 384 \<in> set (new_calls w (snd (VerifyDeviceID m w))))"
proof (cases "fst (GetDeviceIDPath m w)")
  case (Inl err)
  with assms show ?thesis by (simp add: VerifyDeviceID_no_path)
next
  case (Inr path)
  show ?thesis
  proof (cases path w rule: read_outcome_cases)
    case (valid stored)
    note v = VerifyDeviceID_valid_eq [OF Inr valid]
    from assms have i: "ident = stored" by (simp add: v)
    obtain perm where n: "nodes w path = Some (Regular stored perm)"
      using read_file_content [of "read_fault w" path "nodes w" stored] valid(1)
      by (auto simp: os_ReadFile_def)
    have "fst (GetDeviceIDPath m (snd (VerifyDeviceID m w))) = Inr path"
      using Inr by (simp add: v)
    moreover have "fst (os_ReadFile path (snd (VerifyDeviceID m w))) = Inr ident"
      using valid(1) by (simp add: v i)
    moreover have "IsValidSHA256 ident"
      using valid(2) by (simp add: i)
    moreover have "nodes w path = None \<longrightarrow>
        WriteFileCall path ident 384 \<in> set (new_calls w (snd (VerifyDeviceID m w)))"
      by (simp add: n)
    ultimately show ?thesis using Inr by (intro exI [of _ path]) simp
  next
    case regenerate
    note f = VerifyDeviceID_regenerate_fst [OF Inr regenerate]
    from assms obtain info where pr: "probe w = Inr info"
      and sv: "fst (SaveDeviceID m (EncodeToString (Sum256 info)) w) = None"
      and i: "ident = EncodeToString (Sum256 info)"
      by (auto simp: f split: sum.splits option.splits)
    from VerifyDeviceID_regenerate_saved [OF Inr regenerate pr sv]
    have rd: "fst (os_ReadFile path (snd (VerifyDeviceID m w))) = Inr ident"
      and wr: "WriteFileCall path ident 384 \<in> set (new_calls w (snd (VerifyDeviceID m w)))"
      and h: "home_dir (snd (VerifyDeviceID m w)) = home_dir w"
      by (simp_all add: i)
    have "fst (GetDeviceIDPath m (snd (VerifyDeviceID m w))) = Inr path"
      using GetDeviceIDPath_fst_cong [OF h, of m] Inr by simp
    moreover have "IsValidSHA256 ident" by (simp add: i IsValidSHA256_digest)
    ultimately show ?thesis using Inr rd wr by (intro exI [of _ path]) simp
  next
    case (failure err)
    with assms show ?thesis by (simp add: VerifyDeviceID_read_error_eq [OF Inr failure])
  qed
qed

section \<open>Properties of the package\<close>

text \<open>
  Claim C4. For every string \<open>s\<close>, \<^verbatim>\<open>IsValidSHA256(s)\<close> is true if and only if \<open>s\<close> has
  length 64 and every character of \<open>s\<close> is one of \<open>0123456789abcdef\<close>. In particular it is
  false for every string whose length is not 64, false for every string of length 64 that
  holds a character outside that set (an uppercase \<open>A\<close> to \<open>F\<close> included), and true for the
  string of 64 zeros.
\<close>

theorem IsValidSHA256_iff_shape:
  "(IsValidSHA256 s \<longleftrightarrow> length s = 64 \<and> (\<forall>c \<in> set s. c \<in> set ''0123456789abcdef''))
   \<and> (length s \<noteq> 64 \<longrightarrow> \<not> IsValidSHA256 s)
   \<and> (length s = 64 \<and> (\<exists>c \<in> set s. c \<notin> set ''0123456789abcdef'') \<longrightarrow> \<not> IsValidSHA256 s)
   \<and> (\<forall>c \<in> set ''ABCDEF''. c \<in> set s \<longrightarrow> \<not> IsValidSHA256 s)
   \<and> IsValidSHA256 (replicate 64 CHR ''0'')"
proof -
  have shape: "IsValidSHA256 t \<longleftrightarrow> length t = 64 \<and> (\<forall>c \<in> set t. c \<in> set ''0123456789abcdef'')"
    for t
    by (rule IsValidSHA256_shape)
  have short: "length s \<noteq> 64 \<longrightarrow> \<not> IsValidSHA256 s"
    by (simp only: shape) simp
  have other: "length s = 64 \<and> (\<exists>c \<in> set s. c \<notin> set ''0123456789abcdef'')
                 \<longrightarrow> \<not> IsValidSHA256 s"
    by (simp only: shape) blast
  have upper: "\<forall>c \<in> set ''ABCDEF''. c \<in> set s \<longrightarrow> \<not> IsValidSHA256 s"
  proof (intro ballI impI)
    fix c :: char
    assume "c \<in> set ''ABCDEF''" and "c \<in> set s"
    moreover from \<open>c \<in> set ''ABCDEF''\<close> have "c \<notin> set ''0123456789abcdef''"
      by auto
    ultimately show "\<not> IsValidSHA256 s"
      by (simp only: shape) blast
  qed
  have zeros: "IsValidSHA256 (replicate 64 CHR ''0'')"
    by (simp only: shape) simp
  from shape [of s] short other upper zeros show ?thesis
    by (intro conjI)
qed

theorem IsValidSHA256_iff_shape_witness:
  "\<not> IsValidSHA256 ''abc''
   \<and> \<not> IsValidSHA256 (replicate 63 CHR ''0'' @ ''A'')
   \<and> IsValidSHA256 (replicate 64 CHR ''0'')"
proof -
  have a: "length ''abc'' \<noteq> 64"
    by simp
  have b: "CHR ''A'' \<in> set ''ABCDEF''" "CHR ''A'' \<in> set (replicate 63 CHR ''0'' @ ''A'')"
    by simp_all
  from IsValidSHA256_iff_shape [of "''abc''"] a have "\<not> IsValidSHA256 ''abc''"
    by blast
  moreover from IsValidSHA256_iff_shape [of "replicate 63 CHR ''0'' @ ''A''"] b
  have "\<not> IsValidSHA256 (replicate 63 CHR ''0'' @ ''A'')"
    by blast
  moreover from IsValidSHA256_iff_shape [of "''abc''"]
  have "IsValidSHA256 (replicate 64 CHR ''0'')"
    by blast
  ultimately show ?thesis
    by (intro conjI)
qed

text \<open>
  Claim C1. When the identifier file is absent, or is read but its content fails the
  fingerprint check, \<^verbatim>\<open>VerifyDeviceID\<close> runs the platform probe. If the probe fails, the call
  fails with the probe's error, wrapped. If the probe succeeds, the identifier is the hex
  digest of its output and is handed to \<^verbatim>\<open>SaveDeviceID\<close>; if saving fails, the call fails with
  the error of saving, wrapped; if saving succeeds, the call returns the new identifier, the
  file has been written with it, and reading the file gives it back. In the failing cases
  the result is an error, so no identifier is returned.
\<close>

theorem VerifyDeviceID_regenerates:
  assumes "fst (GetDeviceIDPath m w) = Inr path"
      and "(\<exists>err. fst (os_ReadFile path w) = Inl err \<and> os_IsNotExist err)
           \<or> (\<exists>stored. fst (os_ReadFile path w) = Inr stored \<and> \<not> IsValidSHA256 stored)"
  shows "Exec (system_command (GOOS w)) \<in> set (new_calls w (snd (VerifyDeviceID m w)))
     \<and> (\<forall>err. probe w = Inl err \<longrightarrow>
           fst (VerifyDeviceID m w) =
             Inl (WrapError ''failed to generate new device ID''
                   (WrapError ''failed to generate device ID''
                     (WrapError ''failed to get system info'' err))))
     \<and> (\<forall>info err.
           probe w = Inr info
           \<and> fst (SaveDeviceID m (EncodeToString (Sum256 info)) w) = Some err \<longrightarrow>
           fst (VerifyDeviceID m w) = Inl (WrapError ''failed to save new device ID'' err))
     \<and> (\<forall>info.
           probe w = Inr info
           \<and> fst (SaveDeviceID m (EncodeToString (Sum256 info)) w) = None \<longrightarrow>
           fst (VerifyDeviceID m w) = Inr (EncodeToString (Sum256 info))
           \<and> fst (os_ReadFile path (snd (VerifyDeviceID m w))) = Inr (EncodeToString (Sum256 info))
           \<and> WriteFileCall path (EncodeToString (Sum256 info)) 384
                \<in> set (new_calls w (snd (VerifyDeviceID m w))))"
proof -
  note fst_eq = VerifyDeviceID_regenerate_fst [OF assms]
  have probed: "Exec (system_command (GOOS w)) \<in> set (new_calls w (snd (VerifyDeviceID m w)))"
    by (rule VerifyDeviceID_regenerate_probed [OF assms])
  have failed_probe: "fst (VerifyDeviceID m w) =
        Inl (WrapError ''failed to generate new device ID''
              (WrapError ''failed to generate device ID''
                (WrapError ''failed to get system info'' err)))"
    if "probe w = Inl err" for err
    using that by (simp add: fst_eq)
  have failed_save: "fst (VerifyDeviceID m w) = Inl (WrapError ''failed to save new device ID'' err)"
    if "probe w = Inr info \<and> fst (SaveDeviceID m (EncodeToString (Sum256 info)) w) = Some err"
    for info err
    using that by (simp add: fst_eq)
  have saved: "fst (VerifyDeviceID m w) = Inr (EncodeToString (Sum256 info))
           \<and> fst (os_ReadFile path (snd (VerifyDeviceID m w))) = Inr (EncodeToString (Sum256 info))
           \<and> WriteFileCall path (EncodeToString (Sum256 info)) 384
                \<in> set (new_calls w (snd (VerifyDeviceID m w)))"
    if "probe w = Inr info \<and> fst (SaveDeviceID m (EncodeToString (Sum256 info)) w) = None"
    for info
    using VerifyDeviceID_regenerate_saved [OF assms, of info] that by simp
  from probed failed_probe failed_save saved show ?thesis by blast
qed

theorem VerifyDeviceID_regenerates_witness:
  "fst (VerifyDeviceID example_manager (linux_machine (Inr ''abc'') Map.empty)) =
     Inr ''ba7816bf8f01cfea414140de5dae2223b00361a396177a9cb410ff61f20015ad''
   \<and> fst (os_ReadFile ''/d/id''
            (snd (VerifyDeviceID example_manager (linux_machine (Inr ''abc'') Map.empty)))) =
     Inr ''ba7816bf8f01cfea414140de5dae2223b00361a396177a9cb410ff61f20015ad''
   \<and> fst (VerifyDeviceID example_manager
            (linux_machine (Inl (ExternalError ''exit status 1'')) [''/d/id'' \<mapsto> Regular ''not-a-hash'' 384])) =
     Inl (WrapError ''failed to generate new device ID''
           (WrapError ''failed to generate device ID''
             (WrapError ''failed to get system info'' (ExternalError ''exit status 1''))))
   \<and> fst (VerifyDeviceID example_manager
            ((linux_machine (Inr ''abc'') Map.empty)
               \<lparr>mkdir_fault := (\<lambda>name. if name = ''/d'' then Some EACCES else None)\<rparr>)) =
     Inl (WrapError ''failed to save new device ID''
           (WrapError ''failed to create directory''
             (PathError ''mkdir'' ''/d'' (Fault EACCES))))"
proof -
  let ?m = example_manager
  let ?id = "''ba7816bf8f01cfea414140de5dae2223b00361a396177a9cb410ff61f20015ad''"
  let ?a = "linux_machine (Inr ''abc'') Map.empty"
  let ?b = "linux_machine (Inl (ExternalError ''exit status 1'')) [''/d/id'' \<mapsto> Regular ''not-a-hash'' 384]"
  let ?c = "(linux_machine (Inr ''abc'') Map.empty)
               \<lparr>mkdir_fault := (\<lambda>name. if name = ''/d'' then Some EACCES else None)\<rparr>"
  have pa: "fst (GetDeviceIDPath ?m ?a) = Inr ''/d/id''" by code_simp
  have pb: "fst (GetDeviceIDPath ?m ?b) = Inr ''/d/id''" by code_simp
  have pc: "fst (GetDeviceIDPath ?m ?c) = Inr ''/d/id''" by code_simp
  have ra: "fst (os_ReadFile ''/d/id'' ?a) = Inl (PathError ''open'' ''/d/id'' ENOENT)" by code_simp
  have rb: "fst (os_ReadFile ''/d/id'' ?b) = Inr ''not-a-hash''" by code_simp
  have rc: "fst (os_ReadFile ''/d/id'' ?c) = Inl (PathError ''open'' ''/d/id'' ENOENT)" by code_simp
  have nb: "\<not> IsValidSHA256 ''not-a-hash''" by code_simp
  have qa: "probe ?a = Inr ''abc''" by code_simp
  have qb: "probe ?b = Inl (ExternalError ''exit status 1'')" by code_simp
  have qc: "probe ?c = Inr ''abc''" by code_simp
  have sa: "fst (SaveDeviceID ?m ?id ?a) = None" by code_simp
  have sc: "fst (SaveDeviceID ?m ?id ?c) =
      Some (WrapError ''failed to create directory'' (PathError ''mkdir'' ''/d'' (Fault EACCES)))"
    by code_simp
  have a: "fst (VerifyDeviceID ?m ?a) = Inr ?id
           \<and> fst (os_ReadFile ''/d/id'' (snd (VerifyDeviceID ?m ?a))) = Inr ?id"
    using VerifyDeviceID_regenerates [of ?m ?a "''/d/id''"] pa ra qa sa
    by (simp add: Sum256_abc)
  have b: "fst (VerifyDeviceID ?m ?b) =
     Inl (WrapError ''failed to generate new device ID''
           (WrapError ''failed to generate device ID''
             (WrapError ''failed to get system info'' (ExternalError ''exit status 1''))))"
    using VerifyDeviceID_regenerates [of ?m ?b "''/d/id''"] pb rb nb qb
    by simp
  have c: "fst (VerifyDeviceID ?m ?c) =
     Inl (WrapError ''failed to save new device ID''
           (WrapError ''failed to create directory''
             (PathError ''mkdir'' ''/d'' (Fault EACCES))))"
    using VerifyDeviceID_regenerates [of ?m ?c "''/d/id''"] pc rc qc sc
    by (simp add: Sum256_abc)
  from a b c show ?thesis by simp
qed

text \<open>
  Claim C2. When the identifier file is read and its content is a valid fingerprint,
  \<^verbatim>\<open>VerifyDeviceID\<close> returns exactly that content. Apart from the record of calls the
  machine is as before, so the file system is unchanged; the only calls made are the
  look-up of the home directory (when no storage directory is configured) and the read of
  the file: no command is run, so nothing is probed or hashed, and no directory or file is
  written.
\<close>

theorem VerifyDeviceID_valid_file:
  assumes "fst (GetDeviceIDPath m w) = Inr path"
      and "fst (os_ReadFile path w) = Inr stored"
      and "IsValidSHA256 stored"
  shows "fst (VerifyDeviceID m w) = Inr stored
         \<and> (snd (VerifyDeviceID m w))\<lparr>calls := calls w\<rparr> = w
         \<and> nodes (snd (VerifyDeviceID m w)) = nodes w
         \<and> new_calls w (snd (VerifyDeviceID m w)) =
             (if StorageDir (config m) = [] then [UserHomeDirCall] else []) @ [ReadFileCall path]
         \<and> (\<forall>argv. Exec argv \<notin> set (new_calls w (snd (VerifyDeviceID m w))))
         \<and> (\<forall>name perm. MkdirAllCall name perm \<notin> set (new_calls w (snd (VerifyDeviceID m w))))
         \<and> (\<forall>name data perm.
               WriteFileCall name data perm \<notin> set (new_calls w (snd (VerifyDeviceID m w))))"
proof -
  have v: "VerifyDeviceID m w =
     (Inr stored,
      w\<lparr>calls := calls w @ (if StorageDir (config m) \<noteq> [] then [] else [UserHomeDirCall])
                 @ [ReadFileCall path]\<rparr>)"
    by (rule VerifyDeviceID_valid_eq [OF assms])
  show ?thesis
    unfolding v by (simp add: new_calls_def)
qed

theorem VerifyDeviceID_valid_file_witness:
  "fst (VerifyDeviceID example_manager
          (linux_machine (Inl (ExternalError ''exit status 1''))
             [''/d/id'' \<mapsto> Regular (replicate 64 CHR ''0'') 384])) =
     Inr (replicate 64 CHR ''0'')
   \<and> nodes (snd (VerifyDeviceID example_manager
          (linux_machine (Inl (ExternalError ''exit status 1''))
             [''/d/id'' \<mapsto> Regular (replicate 64 CHR ''0'') 384]))) =
     [''/d/id'' \<mapsto> Regular (replicate 64 CHR ''0'') 384]
   \<and> calls (snd (VerifyDeviceID example_manager
          (linux_machine (Inl (ExternalError ''exit status 1''))
             [''/d/id'' \<mapsto> Regular (replicate 64 CHR ''0'') 384]))) =
     [ReadFileCall ''/d/id'']"
proof -
  let ?w = "linux_machine (Inl (ExternalError ''exit status 1''))
             [''/d/id'' \<mapsto> Regular (replicate 64 CHR ''0'') 384]"
  have p: "fst (GetDeviceIDPath example_manager ?w) = Inr ''/d/id''" by code_simp
  have r: "fst (os_ReadFile ''/d/id'' ?w) = Inr (replicate 64 CHR ''0'')"
    by (simp add: os_ReadFile_def read_file_def linux_machine_def)
  have v: "IsValidSHA256 (replicate 64 CHR ''0'')" by code_simp
  have s: "StorageDir (config example_manager) \<noteq> []"
    by (simp add: example_manager_def NewManager_def)
  have n: "nodes ?w = [''/d/id'' \<mapsto> Regular (replicate 64 CHR ''0'') 384]"
    and c: "calls ?w = []"
    by (simp_all add: linux_machine_def)
  from VerifyDeviceID_valid_file [OF p r v] s n c show ?thesis
    by (simp add: new_calls_def)
qed

text \<open>
  Claim C3. When reading the identifier file fails for a reason other than the file being
  absent, \<^verbatim>\<open>VerifyDeviceID\<close> fails with that error, wrapped. Apart from the record of calls
  the machine is as before; the only calls made are the look-up of the home directory (when
  no storage directory is configured) and the read: no command is run, so nothing is
  regenerated, and no directory or file is written. The result is an error, not an
  identifier.
\<close>

theorem VerifyDeviceID_read_failure:
  assumes "fst (GetDeviceIDPath m w) = Inr path"
      and "fst (os_ReadFile path w) = Inl err"
      and "\<not> os_IsNotExist err"
  shows "fst (VerifyDeviceID m w) = Inl (WrapError ''failed to read device ID'' err)
         \<and> (snd (VerifyDeviceID m w))\<lparr>calls := calls w\<rparr> = w
         \<and> nodes (snd (VerifyDeviceID m w)) = nodes w
         \<and> new_calls w (snd (VerifyDeviceID m w)) =
             (if StorageDir (config m) = [] then [UserHomeDirCall] else []) @ [ReadFileCall path]
         \<and> (\<forall>argv. Exec argv \<notin> set (new_calls w (snd (VerifyDeviceID m w))))
         \<and> (\<forall>name perm. MkdirAllCall name perm \<notin> set (new_calls w (snd (VerifyDeviceID m w))))
         \<and> (\<forall>name data perm.
               WriteFileCall name data perm \<notin> set (new_calls w (snd (VerifyDeviceID m w))))"
proof -
  have v: "VerifyDeviceID m w =
     (Inl (WrapError ''failed to read device ID'' err),
      w\<lparr>calls := calls w @ (if StorageDir (config m) \<noteq> [] then [] else [UserHomeDirCall])
                 @ [ReadFileCall path]\<rparr>)"
    by (rule VerifyDeviceID_read_error_eq [OF assms])
  show ?thesis
    unfolding v by (simp add: new_calls_def)
qed

theorem VerifyDeviceID_read_failure_witness:
  "fst (VerifyDeviceID example_manager
          ((linux_machine (Inr ''abc'') [''/d/id'' \<mapsto> Regular (replicate 64 CHR ''0'') 384])
             \<lparr>read_fault := (\<lambda>name. if name = ''/d/id'' then Some EACCES else None)\<rparr>)) =
     Inl (WrapError ''failed to read device ID'' (PathError ''open'' ''/d/id'' (Fault EACCES)))
   \<and> calls (snd (VerifyDeviceID example_manager
          ((linux_machine (Inr ''abc'') [''/d/id'' \<mapsto> Regular (replicate 64 CHR ''0'') 384])
             \<lparr>read_fault := (\<lambda>name. if name = ''/d/id'' then Some EACCES else None)\<rparr>))) =
     [ReadFileCall ''/d/id'']"
proof -
  let ?w = "(linux_machine (Inr ''abc'') [''/d/id'' \<mapsto> Regular (replicate 64 CHR ''0'') 384])
             \<lparr>read_fault := (\<lambda>name. if name = ''/d/id'' then Some EACCES else None)\<rparr>"
  have p: "fst (GetDeviceIDPath example_manager ?w) = Inr ''/d/id''" by code_simp
  have r: "fst (os_ReadFile ''/d/id'' ?w) = Inl (PathError ''open'' ''/d/id'' (Fault EACCES))"
    by (simp add: os_ReadFile_def read_file_def linux_machine_def)
  have e: "\<not> os_IsNotExist (PathError ''open'' ''/d/id'' (Fault EACCES))" by simp
  have s: "StorageDir (config example_manager) \<noteq> []"
    by (simp add: example_manager_def NewManager_def)
  have c: "calls ?w = []"
    by (simp add: linux_machine_def)
  from VerifyDeviceID_read_failure [OF p r e] s c show ?thesis
    by (simp add: new_calls_def)
qed

text \<open>
  Claim C6. For every string that does not have the fingerprint shape (length 64, every
  character one of \<open>0123456789abcdef\<close>), \<^verbatim>\<open>SaveDeviceID\<close> returns the error
  \<open>invalid device ID format\<close> and leaves the machine exactly as it was: no path is resolved,
  no directory is made, no file is created or modified, and no call leaves the package.
\<close>

theorem SaveDeviceID_rejects_malformed:
  assumes "\<not> (length s = 64 \<and> (\<forall>c \<in> set s. c \<in> set ''0123456789abcdef''))"
  shows "SaveDeviceID m s w = (Some (ErrorString ''invalid device ID format''), w)"
proof -
  have "\<not> IsValidSHA256 s"
    unfolding IsValidSHA256_shape by (rule assms)
  then show ?thesis by (rule SaveDeviceID_invalid)
qed

theorem SaveDeviceID_rejects_malformed_witness:
  "SaveDeviceID example_manager ''abc'' (linux_machine (Inr ''abc'') Map.empty) =
     (Some (ErrorString ''invalid device ID format''), linux_machine (Inr ''abc'') Map.empty)"
proof -
  have "\<not> (length ''abc'' = 64 \<and> (\<forall>c \<in> set ''abc''. c \<in> set ''0123456789abcdef''))"
    by simp
  then show ?thesis by (rule SaveDeviceID_rejects_malformed)
qed

text \<open>
  Claim C5. When the probe's command prints \<open>info\<close>, \<^verbatim>\<open>GenerateDeviceID\<close> returns the hex
  encoding of the 32 bytes of \<open>Sum256 info\<close>, the SHA-256 digest of exactly those bytes.
  Every identifier it returns has 64 characters, all of them in \<open>0123456789abcdef\<close>, and
  passes \<^verbatim>\<open>IsValidSHA256\<close>. The result is a function of the probe's output alone: machines
  with the same output give the same identifier, and so does a second call made right after
  the first.
\<close>

theorem GenerateDeviceID_hex_digest:
  "(\<forall>info. probe w = Inr info \<longrightarrow>
      fst (GenerateDeviceID m w) = Inr (EncodeToString (Sum256 info))
      \<and> length (Sum256 info) = 32)
   \<and> (\<forall>ident. fst (GenerateDeviceID m w) = Inr ident \<longrightarrow>
         length ident = 64
         \<and> (\<forall>c \<in> set ident. c \<in> set ''0123456789abcdef'')
         \<and> IsValidSHA256 ident)
   \<and> (\<forall>w'. probe w' = probe w \<longrightarrow> fst (GenerateDeviceID m w') = fst (GenerateDeviceID m w))
   \<and> fst (GenerateDeviceID m (snd (GenerateDeviceID m w))) = fst (GenerateDeviceID m w)"
proof -
  have digest: "fst (GenerateDeviceID m w) = Inr (EncodeToString (Sum256 info))
      \<and> length (Sum256 info) = 32"
    if "probe w = Inr info" for info
    using that by (simp add: GenerateDeviceID_fst Sum256_length)
  have shape: "length ident = 64
         \<and> (\<forall>c \<in> set ident. c \<in> set ''0123456789abcdef'')
         \<and> IsValidSHA256 ident"
    if "fst (GenerateDeviceID m w) = Inr ident" for ident
  proof -
    from that obtain info where "ident = EncodeToString (Sum256 info)"
      by (auto simp: GenerateDeviceID_fst split: sum.splits)
    then have "IsValidSHA256 ident" by (simp add: IsValidSHA256_digest)
    then show ?thesis by (simp add: IsValidSHA256_shape)
  qed
  have same: "fst (GenerateDeviceID m w') = fst (GenerateDeviceID m w)"
    if "probe w' = probe w" for w'
    using that by (simp add: GenerateDeviceID_fst)
  have again: "fst (GenerateDeviceID m (snd (GenerateDeviceID m w))) = fst (GenerateDeviceID m w)"
    by (simp add: GenerateDeviceID_fst) (simp add: GenerateDeviceID_eq record_call_def)
  from digest shape same again show ?thesis by blast
qed

theorem GenerateDeviceID_hex_digest_witness:
  "fst (GenerateDeviceID example_manager (linux_machine (Inr ''abc'') Map.empty)) =
     Inr ''ba7816bf8f01cfea414140de5dae2223b00361a396177a9cb410ff61f20015ad''
   \<and> IsValidSHA256 ''ba7816bf8f01cfea414140de5dae2223b00361a396177a9cb410ff61f20015ad''
   \<and> fst (GenerateDeviceID example_manager
            (linux_machine (Inr ''abc\<newline>'') Map.empty)) =
     Inr ''edeaaff3f1774ad2888673770c6d64097e391bc362d7d6fb34982ddf0efd18cb''"
proof -
  let ?a = "linux_machine (Inr ''abc'') Map.empty"
  let ?b = "linux_machine (Inr ''abc\<newline>'') Map.empty"
  have qa: "probe ?a = Inr ''abc''" by code_simp
  have qb: "probe ?b = Inr ''abc\<newline>''" by code_simp
  from GenerateDeviceID_hex_digest [of ?a example_manager] qa
  have a: "fst (GenerateDeviceID example_manager ?a) =
             Inr ''ba7816bf8f01cfea414140de5dae2223b00361a396177a9cb410ff61f20015ad''"
    by (simp add: Sum256_abc)
  with GenerateDeviceID_hex_digest [of ?a example_manager]
  have v: "IsValidSHA256 ''ba7816bf8f01cfea414140de5dae2223b00361a396177a9cb410ff61f20015ad''"
    by blast
  from GenerateDeviceID_hex_digest [of ?b example_manager] qb
  have b: "fst (GenerateDeviceID example_manager ?b) =
             Inr ''edeaaff3f1774ad2888673770c6d64097e391bc362d7d6fb34982ddf0efd18cb''"
    by (simp add: Sum256_abc_newline)
  from a v b show ?thesis by (intro conjI)
qed

text \<open>
  Claim C7. For a manager made by \<^verbatim>\<open>NewManager\<close>, the file name is \<open>IDFileName\<close>, or
  \<open>.device_id\<close> when that is empty. When \<open>StorageDir\<close> is set, \<^verbatim>\<open>GetDeviceIDPath\<close> returns
  \<^verbatim>\<open>filepath.Join\<close> of \<open>StorageDir\<close>, as it is, and the file name, and makes no call. When
  \<open>StorageDir\<close> is empty and the home directory is known, it returns the home directory
  joined with \<open>.parity\<close> and then with the file name. It fails exactly when \<open>StorageDir\<close> is
  empty and the home directory cannot be determined, with that error wrapped as
  \<open>failed to get user home directory\<close>.
\<close>

theorem GetDeviceIDPath_resolution:
  "(StorageDir cfg \<noteq> [] \<longrightarrow>
      GetDeviceIDPath (NewManager cfg) w =
        (Inr (filepath_Join [StorageDir cfg,
                if IDFileName cfg = [] then ''.device_id'' else IDFileName cfg]), w))
   \<and> (\<forall>home. StorageDir cfg = [] \<and> home_dir w = Inr home \<longrightarrow>
         fst (GetDeviceIDPath (NewManager cfg) w) =
           Inr (filepath_Join [filepath_Join [home, ''.parity''],
                  if IDFileName cfg = [] then ''.device_id'' else IDFileName cfg]))
   \<and> (\<forall>err. StorageDir cfg = [] \<and> home_dir w = Inl err \<longrightarrow>
         fst (GetDeviceIDPath (NewManager cfg) w) =
           Inl (WrapError ''failed to get user home directory'' err))
   \<and> ((\<exists>err. fst (GetDeviceIDPath (NewManager cfg) w) = Inl err)
        \<longleftrightarrow> StorageDir cfg = [] \<and> (\<exists>err. home_dir w = Inl err))"
proof -
  have name: "IDFileName (config (NewManager cfg)) =
                (if IDFileName cfg = [] then ''.device_id'' else IDFileName cfg)"
    and dir: "StorageDir (config (NewManager cfg)) = StorageDir cfg"
    by (simp_all add: NewManager_def DefaultIDFileName_def)
  have set_dir: "GetDeviceIDPath (NewManager cfg) w =
        (Inr (filepath_Join [StorageDir cfg,
                if IDFileName cfg = [] then ''.device_id'' else IDFileName cfg]), w)"
    if "StorageDir cfg \<noteq> []"
    using that by (simp add: GetDeviceIDPath_def name dir del: filepath_Join.simps)
  have home: "fst (GetDeviceIDPath (NewManager cfg) w) =
           Inr (filepath_Join [filepath_Join [home, ''.parity''],
                  if IDFileName cfg = [] then ''.device_id'' else IDFileName cfg])"
    if "StorageDir cfg = [] \<and> home_dir w = Inr home" for home
    using that by (simp add: GetDeviceIDPath_fst name dir del: filepath_Join.simps)
  have no_home: "fst (GetDeviceIDPath (NewManager cfg) w) =
           Inl (WrapError ''failed to get user home directory'' err)"
    if "StorageDir cfg = [] \<and> home_dir w = Inl err" for err
    using that by (simp add: GetDeviceIDPath_fst name dir del: filepath_Join.simps)
  have fails: "(\<exists>err. fst (GetDeviceIDPath (NewManager cfg) w) = Inl err)
        \<longleftrightarrow> StorageDir cfg = [] \<and> (\<exists>err. home_dir w = Inl err)"
    by (auto simp: GetDeviceIDPath_fst dir split: sum.splits simp del: filepath_Join.simps)
  from set_dir home no_home fails show ?thesis by blast
qed

theorem GetDeviceIDPath_resolution_witness:
  "fst (GetDeviceIDPath (NewManager \<lparr>StorageDir = ''/tmp/custom'', IDFileName = ''my-id''\<rparr>)
          (linux_machine (Inr ''abc'') Map.empty)) = Inr ''/tmp/custom/my-id''
   \<and> fst (GetDeviceIDPath (NewManager \<lparr>StorageDir = [], IDFileName = []\<rparr>)
          (linux_machine (Inr ''abc'') Map.empty)) = Inr ''/home/u/.parity/.device_id''
   \<and> fst (GetDeviceIDPath (NewManager \<lparr>StorageDir = [], IDFileName = []\<rparr>)
          ((linux_machine (Inr ''abc'') Map.empty)
             \<lparr>home_dir := Inl (ExternalError ''$HOME is not defined'')\<rparr>)) =
       Inl (WrapError ''failed to get user home directory''
             (ExternalError ''$HOME is not defined''))"
proof -
  let ?w = "linux_machine (Inr ''abc'') Map.empty"
  let ?n = "(linux_machine (Inr ''abc'') Map.empty)
             \<lparr>home_dir := Inl (ExternalError ''$HOME is not defined'')\<rparr>"
  have j1: "filepath_Join [''/tmp/custom'', ''my-id''] = ''/tmp/custom/my-id''" by code_simp
  have j2: "filepath_Join [filepath_Join [''/home/u'', ''.parity''], ''.device_id''] =
              ''/home/u/.parity/.device_id''" by code_simp
  have h: "home_dir ?w = Inr ''/home/u''"
    and n: "home_dir ?n = Inl (ExternalError ''$HOME is not defined'')"
    by (simp_all add: linux_machine_def)
  from GetDeviceIDPath_resolution
    [of "\<lparr>StorageDir = ''/tmp/custom'', IDFileName = ''my-id''\<rparr>" ?w]
  have a: "fst (GetDeviceIDPath (NewManager \<lparr>StorageDir = ''/tmp/custom'', IDFileName = ''my-id''\<rparr>) ?w)
             = Inr ''/tmp/custom/my-id''"
    by (simp add: j1 del: filepath_Join.simps)
  from GetDeviceIDPath_resolution [of "\<lparr>StorageDir = [], IDFileName = []\<rparr>" ?w] h
  have b: "fst (GetDeviceIDPath (NewManager \<lparr>StorageDir = [], IDFileName = []\<rparr>) ?w)
             = Inr ''/home/u/.parity/.device_id''"
    by (simp add: j2 del: filepath_Join.simps)
  from GetDeviceIDPath_resolution [of "\<lparr>StorageDir = [], IDFileName = []\<rparr>" ?n] n
  have c: "fst (GetDeviceIDPath (NewManager \<lparr>StorageDir = [], IDFileName = []\<rparr>) ?n)
             = Inl (WrapError ''failed to get user home directory''
                     (ExternalError ''$HOME is not defined''))"
    by (simp del: filepath_Join.simps)
  from a b c show ?thesis by (intro conjI)
qed

text \<open>
  Claim C9. The result of \<^verbatim>\<open>GenerateDeviceID\<close> does not depend on the manager: any two
  managers, with whatever storage directory and file name, give the same result on the same
  machine, and the same identifier or error on any machine with the same operating system
  and the same command outcomes, whatever its home directory and file system. The only call
  made is the probe's command: no home directory is looked up and no file is touched.
\<close>

theorem GenerateDeviceID_ignores_config:
  "GenerateDeviceID m1 w = GenerateDeviceID m2 w
   \<and> GenerateDeviceID (NewManager cfg1) w = GenerateDeviceID (NewManager cfg2) w
   \<and> (\<forall>w'. GOOS w' = GOOS w \<and> commands w' = commands w \<longrightarrow>
         fst (GenerateDeviceID m2 w') = fst (GenerateDeviceID m1 w))
   \<and> new_calls w (snd (GenerateDeviceID m1 w)) = [Exec (system_command (GOOS w))]
   \<and> (snd (GenerateDeviceID m1 w))\<lparr>calls := calls w\<rparr> = w"
proof -
  have any: "GenerateDeviceID m w = GenerateDeviceID m' w" for m m'
    by (simp add: GenerateDeviceID_eq)
  have machine: "fst (GenerateDeviceID m2 w') = fst (GenerateDeviceID m1 w)"
    if "GOOS w' = GOOS w \<and> commands w' = commands w" for w'
    using that by (simp add: GenerateDeviceID_fst probe_def)
  have log: "new_calls w (snd (GenerateDeviceID m1 w)) = [Exec (system_command (GOOS w))]"
    by (simp add: GenerateDeviceID_eq new_calls_def)
  have frame: "(snd (GenerateDeviceID m1 w))\<lparr>calls := calls w\<rparr> = w"
    by (simp add: GenerateDeviceID_eq record_call_def)
  show ?thesis
  proof (intro conjI allI impI)
    show "GenerateDeviceID m1 w = GenerateDeviceID m2 w" by (rule any)
    show "GenerateDeviceID (NewManager cfg1) w = GenerateDeviceID (NewManager cfg2) w"
      by (rule any)
    show "fst (GenerateDeviceID m2 w') = fst (GenerateDeviceID m1 w)"
      if "GOOS w' = GOOS w \<and> commands w' = commands w" for w'
      using that by (rule machine)
    show "new_calls w (snd (GenerateDeviceID m1 w)) = [Exec (system_command (GOOS w))]"
      by (rule log)
    show "(snd (GenerateDeviceID m1 w))\<lparr>calls := calls w\<rparr> = w" by (rule frame)
  qed
qed

theorem GenerateDeviceID_ignores_config_witness:
  "fst (GenerateDeviceID (NewManager \<lparr>StorageDir = ''/tmp/custom'', IDFileName = ''my-id''\<rparr>)
          (linux_machine (Inr ''abc'') Map.empty)) =
   fst (GenerateDeviceID (NewManager \<lparr>StorageDir = [], IDFileName = []\<rparr>)
          ((linux_machine (Inr ''abc'') [''/d/id'' \<mapsto> Regular ''not-a-hash'' 384])
             \<lparr>home_dir := Inl (ExternalError ''$HOME is not defined'')\<rparr>))"
proof -
  let ?a = "linux_machine (Inr ''abc'') Map.empty"
  let ?b = "(linux_machine (Inr ''abc'') [''/d/id'' \<mapsto> Regular ''not-a-hash'' 384])
             \<lparr>home_dir := Inl (ExternalError ''$HOME is not defined'')\<rparr>"
  let ?m1 = "NewManager \<lparr>StorageDir = ''/tmp/custom'', IDFileName = ''my-id''\<rparr>"
  let ?m2 = "NewManager \<lparr>StorageDir = [], IDFileName = []\<rparr>"
  have same: "GOOS ?b = GOOS ?a \<and> commands ?b = commands ?a"
    by (simp add: linux_machine_def)
  have "fst (GenerateDeviceID ?m2 ?b) = fst (GenerateDeviceID ?m1 ?a)"
    by (rule GenerateDeviceID_ignores_config [of ?m1 ?a ?m2, THEN conjunct2, THEN conjunct2,
          THEN conjunct1, rule_format, OF same])
  then show ?thesis by (rule sym)
qed

text \<open>
  Claim C8. After a successful call of \<^verbatim>\<open>VerifyDeviceID\<close> that returned \<open>id1\<close>, from any
  state of the file system and so from a fresh, empty storage directory too, the file at
  the path of \<^verbatim>\<open>GetDeviceIDPath\<close> reads back as exactly \<open>id1\<close>; when no file was there before,
  this call wrote it. Every later call, after any number of calls in between, returns \<open>id1\<close>
  again, leaves the file system as the first call left it, and only looks up the home
  directory (when no storage directory is configured) and reads the file: nothing is
  generated and nothing is written. Between the calls the machine changes only through the
  calls themselves: the home directory and the faults of the environment stay as they are.
\<close>

theorem VerifyDeviceID_idempotent:
  assumes "fst (VerifyDeviceID m w) = Inr id1"
  shows "\<exists>path. fst (GetDeviceIDPath m w) = Inr path
     \<and> fst (os_ReadFile path (snd (VerifyDeviceID m w))) = Inr id1
     \<and> (nodes w path = None \<longrightarrow>
           WriteFileCall path id1 384 \<in> set (new_calls w (snd (VerifyDeviceID m w))))
     \<and> (\<forall>n. fst (VerifyDeviceID m (verify_again n m (snd (VerifyDeviceID m w)))) = Inr id1
            \<and> nodes (snd (VerifyDeviceID m (verify_again n m (snd (VerifyDeviceID m w)))))
                = nodes (snd (VerifyDeviceID m w))
            \<and> new_calls (verify_again n m (snd (VerifyDeviceID m w)))
                 (snd (VerifyDeviceID m (verify_again n m (snd (VerifyDeviceID m w)))))
                = (if StorageDir (config m) = [] then [UserHomeDirCall] else [])
                  @ [ReadFileCall path])"
proof -
  let ?w' = "snd (VerifyDeviceID m w)"
  obtain path where all: "fst (GetDeviceIDPath m w) = Inr path
           \<and> fst (GetDeviceIDPath m ?w') = Inr path
           \<and> fst (os_ReadFile path ?w') = Inr id1
           \<and> IsValidSHA256 id1
           \<and> (nodes w path = None \<longrightarrow> WriteFileCall path id1 384 \<in> set (new_calls w ?w'))"
    by (rule exE [OF VerifyDeviceID_success_leaves_valid [OF assms]])
  then have p: "fst (GetDeviceIDPath m w) = Inr path"
      and p': "fst (GetDeviceIDPath m ?w') = Inr path"
      and r': "fst (os_ReadFile path ?w') = Inr id1"
      and v: "IsValidSHA256 id1"
      and fresh: "nodes w path = None \<longrightarrow> WriteFileCall path id1 384 \<in> set (new_calls w ?w')"
    by simp_all
  have later: "fst (VerifyDeviceID m (verify_again n m ?w')) = Inr id1
            \<and> nodes (snd (VerifyDeviceID m (verify_again n m ?w'))) = nodes ?w'
            \<and> new_calls (verify_again n m ?w') (snd (VerifyDeviceID m (verify_again n m ?w')))
                = (if StorageDir (config m) = [] then [UserHomeDirCall] else [])
                  @ [ReadFileCall path]" for n
  proof -
    let ?wn = "verify_again n m ?w'"
    from verify_again_valid [OF p' r' v, of n]
    have pn: "fst (GetDeviceIDPath m ?wn) = Inr path"
      and rn: "fst (os_ReadFile path ?wn) = Inr id1"
      and nn: "nodes ?wn = nodes ?w'"
      by simp_all
    show ?thesis
      using nn by (simp add: VerifyDeviceID_valid_eq [OF pn rn v] new_calls_def)
  qed
  show ?thesis
  proof (intro exI [of _ path] conjI allI)
    show "fst (GetDeviceIDPath m w) = Inr path" by (rule p)
    show "fst (os_ReadFile path ?w') = Inr id1" by (rule r')
    show "nodes w path = None \<longrightarrow> WriteFileCall path id1 384 \<in> set (new_calls w ?w')"
      by (rule fresh)
    show "fst (VerifyDeviceID m (verify_again n m ?w')) = Inr id1" for n
      using later [of n] by simp
    show "nodes (snd (VerifyDeviceID m (verify_again n m ?w'))) = nodes ?w'" for n
      using later [of n] by simp
    show "new_calls (verify_again n m ?w') (snd (VerifyDeviceID m (verify_again n m ?w')))
            = (if StorageDir (config m) = [] then [UserHomeDirCall] else []) @ [ReadFileCall path]"
      for n
      using later [of n] by simp
  qed
qed

theorem VerifyDeviceID_idempotent_witness:
  "fst (VerifyDeviceID example_manager (linux_machine (Inr ''abc'') Map.empty)) =
     Inr ''ba7816bf8f01cfea414140de5dae2223b00361a396177a9cb410ff61f20015ad''
   \<and> fst (os_ReadFile ''/d/id''
            (snd (VerifyDeviceID example_manager (linux_machine (Inr ''abc'') Map.empty)))) =
     Inr ''ba7816bf8f01cfea414140de5dae2223b00361a396177a9cb410ff61f20015ad''
   \<and> fst (VerifyDeviceID example_manager
            (verify_again 2 example_manager
               (snd (VerifyDeviceID example_manager (linux_machine (Inr ''abc'') Map.empty))))) =
     Inr ''ba7816bf8f01cfea414140de5dae2223b00361a396177a9cb410ff61f20015ad''"
proof -
  let ?m = example_manager
  let ?id = "''ba7816bf8f01cfea414140de5dae2223b00361a396177a9cb410ff61f20015ad''"
  let ?w = "linux_machine (Inr ''abc'') Map.empty"
  have p: "fst (GetDeviceIDPath ?m ?w) = Inr ''/d/id''" by code_simp
  have r: "(\<exists>err. fst (os_ReadFile ''/d/id'' ?w) = Inl err \<and> os_IsNotExist err)
           \<or> (\<exists>stored. fst (os_ReadFile ''/d/id'' ?w) = Inr stored \<and> \<not> IsValidSHA256 stored)"
    by (simp add: os_ReadFile_def read_file_def linux_machine_def)
  have q: "probe ?w = Inr ''abc''" by code_simp
  have s: "fst (SaveDeviceID ?m ?id ?w) = None" by code_simp
  have first: "fst (VerifyDeviceID ?m ?w) = Inr ?id"
    using q s by (simp add: VerifyDeviceID_regenerate_fst [OF p r] Sum256_abc)
  from VerifyDeviceID_idempotent [OF first] p
  have "fst (os_ReadFile ''/d/id'' (snd (VerifyDeviceID ?m ?w))) = Inr ?id
        \<and> fst (VerifyDeviceID ?m (verify_again 2 ?m (snd (VerifyDeviceID ?m ?w)))) = Inr ?id"
    by auto
  with first show ?thesis by simp
qed

text \<open>
  Claim C10. The stored content is checked as it is read, with nothing trimmed. A file that
  holds a valid fingerprint followed by at least one more byte fails the check, so
  \<^verbatim>\<open>VerifyDeviceID\<close> takes the regeneration branch: it runs the probe, and its result is the
  probe's error, or the error of saving, or the newly generated identifier, in which case
  the file has been overwritten and reads back as the new identifier. An identifier that is
  returned is always the generated one; the stored content is never returned.
\<close>

theorem VerifyDeviceID_no_trimming:
  assumes "fst (GetDeviceIDPath m w) = Inr path"
      and "fst (os_ReadFile path w) = Inr (fp @ extra)"
      and "IsValidSHA256 fp"
      and "extra \<noteq> []"
  shows "\<not> IsValidSHA256 (fp @ extra)
     \<and> Exec (system_command (GOOS w)) \<in> set (new_calls w (snd (VerifyDeviceID m w)))
     \<and> fst (VerifyDeviceID m w) =
         (case probe w of
            Inl err \<Rightarrow>
              Inl (WrapError ''failed to generate new device ID''
                    (WrapError ''failed to generate device ID''
                      (WrapError ''failed to get system info'' err)))
          | Inr info \<Rightarrow>
              (case fst (SaveDeviceID m (EncodeToString (Sum256 info)) w) of
                 Some err \<Rightarrow> Inl (WrapError ''failed to save new device ID'' err)
               | None \<Rightarrow> Inr (EncodeToString (Sum256 info))))
     \<and> (\<forall>ident. fst (VerifyDeviceID m w) = Inr ident \<longrightarrow>
           (\<exists>info. probe w = Inr info \<and> ident = EncodeToString (Sum256 info))
           \<and> fst (os_ReadFile path (snd (VerifyDeviceID m w))) = Inr ident
           \<and> WriteFileCall path ident 384 \<in> set (new_calls w (snd (VerifyDeviceID m w))))
     \<and> fst (VerifyDeviceID m w) \<noteq> Inr (fp @ extra)"
proof -
  have len: "length fp = 64"
    using assms(3) by (simp add: IsValidSHA256_shape)
  with assms(4) have "length (fp @ extra) \<noteq> 64"
    by (cases extra) simp_all
  then have corrupt: "\<not> IsValidSHA256 (fp @ extra)"
    by (simp add: IsValidSHA256_def)
  with assms(2)
  have r: "(\<exists>err. fst (os_ReadFile path w) = Inl err \<and> os_IsNotExist err)
           \<or> (\<exists>stored. fst (os_ReadFile path w) = Inr stored \<and> \<not> IsValidSHA256 stored)"
    by simp
  note f = VerifyDeviceID_regenerate_fst [OF assms(1) r]
  have probed: "Exec (system_command (GOOS w)) \<in> set (new_calls w (snd (VerifyDeviceID m w)))"
    by (rule VerifyDeviceID_regenerate_probed [OF assms(1) r])
  have returned: "(\<exists>info. probe w = Inr info \<and> ident = EncodeToString (Sum256 info))
           \<and> fst (os_ReadFile path (snd (VerifyDeviceID m w))) = Inr ident
           \<and> WriteFileCall path ident 384 \<in> set (new_calls w (snd (VerifyDeviceID m w)))"
    if "fst (VerifyDeviceID m w) = Inr ident" for ident
  proof -
    from that obtain info where pr: "probe w = Inr info"
      and sv: "fst (SaveDeviceID m (EncodeToString (Sum256 info)) w) = None"
      and i: "ident = EncodeToString (Sum256 info)"
      by (auto simp: f split: sum.splits option.splits)
    from VerifyDeviceID_regenerate_saved [OF assms(1) r pr sv] pr i show ?thesis
      by simp
  qed
  have not_stored: "fst (VerifyDeviceID m w) \<noteq> Inr (fp @ extra)"
  proof
    assume "fst (VerifyDeviceID m w) = Inr (fp @ extra)"
    from returned [OF this] obtain info where "fp @ extra = EncodeToString (Sum256 info)"
      by auto
    with corrupt show False by (simp add: IsValidSHA256_digest)
  qed
  show ?thesis
  proof (intro conjI allI impI)
    show "\<not> IsValidSHA256 (fp @ extra)" by (rule corrupt)
    show "Exec (system_command (GOOS w)) \<in> set (new_calls w (snd (VerifyDeviceID m w)))"
      by (rule probed)
    show "fst (VerifyDeviceID m w) =
         (case probe w of
            Inl err \<Rightarrow>
              Inl (WrapError ''failed to generate new device ID''
                    (WrapError ''failed to generate device ID''
                      (WrapError ''failed to get system info'' err)))
          | Inr info \<Rightarrow>
              (case fst (SaveDeviceID m (EncodeToString (Sum256 info)) w) of
                 Some err \<Rightarrow> Inl (WrapError ''failed to save new device ID'' err)
               | None \<Rightarrow> Inr (EncodeToString (Sum256 info))))"
      by (rule f)
    show "\<exists>info. probe w = Inr info \<and> ident = EncodeToString (Sum256 info)"
      if "fst (VerifyDeviceID m w) = Inr ident" for ident
      using returned [OF that] by simp
    show "fst (os_ReadFile path (snd (VerifyDeviceID m w))) = Inr ident"
      if "fst (VerifyDeviceID m w) = Inr ident" for ident
      using returned [OF that] by simp
    show "WriteFileCall path ident 384 \<in> set (new_calls w (snd (VerifyDeviceID m w)))"
      if "fst (VerifyDeviceID m w) = Inr ident" for ident
      using returned [OF that] by simp
    show "fst (VerifyDeviceID m w) \<noteq> Inr (fp @ extra)" by (rule not_stored)
  qed
qed

theorem VerifyDeviceID_no_trimming_witness:
  "fst (VerifyDeviceID example_manager
          (linux_machine (Inr ''abc'')
             [''/d'' \<mapsto> Directory 448,
              ''/d/id'' \<mapsto> Regular (replicate 64 CHR ''0'' @ ''\<newline>'') 384])) =
     Inr ''ba7816bf8f01cfea414140de5dae2223b00361a396177a9cb410ff61f20015ad''
   \<and> fst (os_ReadFile ''/d/id''
          (snd (VerifyDeviceID example_manager
            (linux_machine (Inr ''abc'')
               [''/d'' \<mapsto> Directory 448,
                ''/d/id'' \<mapsto> Regular (replicate 64 CHR ''0'' @ ''\<newline>'') 384])))) =
     Inr ''ba7816bf8f01cfea414140de5dae2223b00361a396177a9cb410ff61f20015ad''"
proof -
  let ?m = example_manager
  let ?id = "''ba7816bf8f01cfea414140de5dae2223b00361a396177a9cb410ff61f20015ad''"
  let ?w = "linux_machine (Inr ''abc'')
             [''/d'' \<mapsto> Directory 448,
              ''/d/id'' \<mapsto> Regular (replicate 64 CHR ''0'' @ ''\<newline>'') 384]"
  have p: "fst (GetDeviceIDPath ?m ?w) = Inr ''/d/id''" by code_simp
  have r: "fst (os_ReadFile ''/d/id'' ?w) = Inr (replicate 64 CHR ''0'' @ ''\<newline>'')"
    by (simp add: os_ReadFile_def read_file_def linux_machine_def)
  have v: "IsValidSHA256 (replicate 64 CHR ''0'')" by code_simp
  have e: "''\<newline>'' \<noteq> []" by simp
  have q: "probe ?w = Inr ''abc''" by code_simp
  have s: "fst (SaveDeviceID ?m ?id ?w) = None" by code_simp
  note t = VerifyDeviceID_no_trimming [OF p r v e]
  have "fst (VerifyDeviceID ?m ?w) =
         (case probe ?w of
            Inl err \<Rightarrow>
              Inl (WrapError ''failed to generate new device ID''
                    (WrapError ''failed to generate device ID''
                      (WrapError ''failed to get system info'' err)))
          | Inr info \<Rightarrow>
              (case fst (SaveDeviceID ?m (EncodeToString (Sum256 info)) ?w) of
                 Some err \<Rightarrow> Inl (WrapError ''failed to save new device ID'' err)
               | None \<Rightarrow> Inr (EncodeToString (Sum256 info))))"
    by (rule t [THEN conjunct2, THEN conjunct2, THEN conjunct1])
  then have first: "fst (VerifyDeviceID ?m ?w) = Inr ?id"
    by (simp only: q sum.case Sum256_abc s option.case)
  have "(\<exists>info. probe ?w = Inr info \<and> ?id = EncodeToString (Sum256 info))
           \<and> fst (os_ReadFile ''/d/id'' (snd (VerifyDeviceID ?m ?w))) = Inr ?id
           \<and> WriteFileCall ''/d/id'' ?id 384 \<in> set (new_calls ?w (snd (VerifyDeviceID ?m ?w)))"
    by (rule t [THEN conjunct2, THEN conjunct2, THEN conjunct2, THEN conjunct1, rule_format,
          OF first])
  then have "fst (os_ReadFile ''/d/id'' (snd (VerifyDeviceID ?m ?w))) = Inr ?id"
    by (elim conjE)
  with first show ?thesis by (intro conjI)
qed

end
